theory Spec2Isabelle
  imports Main "HOL-Library.AList"
begin

section \<open>JavaScript values carried by socket messages\<close>

text \<open>
  A message payload is whatever the JSON parser hands to the handler. The model keeps the
  shapes the handlers distinguish: \<open>undefined\<close>, \<open>null\<close>, booleans, numbers, strings and plain
  objects (an association list, in key order). Numbers are restricted to integers in the
  safe range, whose \<open>toString()\<close> is their decimal numeral; arrays are not modelled.
\<close>

datatype jsval =
    JUndefined
  | JNull
  | JBool bool
  | JNum int
  | JStr string
  | JObj "(string \<times> jsval) list"

text \<open>An exception thrown inside a handler's \<open>try\<close> block.\<close>

datatype js_exn =
    NotAnObject jsval string   \<comment> \<open>property read on \<open>null\<close> or \<open>undefined\<close>\<close>
  | NotCallable string         \<comment> \<open>call of a property that is not a function\<close>
  | CannotSet string           \<comment> \<open>property write on \<open>undefined\<close>\<close>

text \<open>\<open>error.message\<close>, in the wording of V8.\<close>

definition message :: "js_exn \<Rightarrow> string" where
  "message e = (case e of
      NotAnObject v p \<Rightarrow>
        ''Cannot read properties of '' @ (if v = JNull then ''null'' else ''undefined'')
          @ '' (reading '' @ [CHR 0x27] @ p @ [CHR 0x27] @ '')''
    | NotCallable p \<Rightarrow> p @ '' is not a function''
    | CannotSet p \<Rightarrow>
        ''Cannot set properties of undefined (setting '' @ [CHR 0x27] @ p @ [CHR 0x27] @ '')'')"

text \<open>JavaScript truthiness (\<open>!!v\<close>).\<close>

fun truthy :: "jsval \<Rightarrow> bool" where
  "truthy JUndefined = False"
| "truthy JNull = False"
| "truthy (JBool b) = b"
| "truthy (JNum n) = (n \<noteq> 0)"
| "truthy (JStr s) = (s \<noteq> [])"
| "truthy (JObj fs) = True"

text \<open>\<open>a || b\<close>\<close>

definition js_or :: "jsval \<Rightarrow> jsval \<Rightarrow> jsval" where
  "js_or a b = (if truthy a then a else b)"

text \<open>\<open>o[k]\<close> on an object: the value stored under the key, \<open>undefined\<close> when there is none.\<close>

definition field :: "(string \<times> jsval) list \<Rightarrow> string \<Rightarrow> jsval" where
  "field fs k = (case map_of fs k of None \<Rightarrow> JUndefined | Some v \<Rightarrow> v)"

text \<open>
  \<open>data.p\<close>: throws a TypeError on \<open>null\<close> and \<open>undefined\<close>; a primitive has none of the
  properties the handlers read.
\<close>

fun get_prop :: "jsval \<Rightarrow> string \<Rightarrow> js_exn + jsval" where
  "get_prop JUndefined p = Inl (NotAnObject JUndefined p)"
| "get_prop JNull p = Inl (NotAnObject JNull p)"
| "get_prop (JObj fs) p = Inr (field fs p)"
| "get_prop v p = Inr JUndefined"

text \<open>\<open>data?.p\<close>: \<open>undefined\<close> instead of the TypeError.\<close>

definition opt_prop :: "jsval \<Rightarrow> string \<Rightarrow> jsval" where
  "opt_prop data p = (case get_prop data p of Inl e \<Rightarrow> JUndefined | Inr v \<Rightarrow> v)"

text \<open>Decimal numerals, for \<open>Number.prototype.toString\<close> on integers.\<close>

definition digit :: "nat \<Rightarrow> char" where
  "digit d = char_of (48 + d)"

fun dec_nat :: "nat \<Rightarrow> string" where
  "dec_nat n = (if n < 10 then [digit n] else dec_nat (n div 10) @ [digit (n mod 10)])"

declare dec_nat.simps [simp del]

definition dec_int :: "int \<Rightarrow> string" where
  "dec_int n = (if n < 0 then CHR ''-'' # dec_nat (nat (- n)) else dec_nat (nat n))"

text \<open>
  \<open>v.toString()\<close>. An object that arrived as JSON and has an own \<open>toString\<close> entry holds a
  non-function there, so the call throws; any other plain object prints as
  \<open>[object Object]\<close>.
\<close>

fun js_toString :: "string \<Rightarrow> jsval \<Rightarrow> js_exn + string" where
  "js_toString path JUndefined = Inl (NotAnObject JUndefined ''toString'')"
| "js_toString path JNull = Inl (NotAnObject JNull ''toString'')"
| "js_toString path (JBool b) = Inr (if b then ''true'' else ''false'')"
| "js_toString path (JNum n) = Inr (dec_int n)"
| "js_toString path (JStr s) = Inr s"
| "js_toString path (JObj fs) =
     (if map_of fs ''toString'' = None then Inr ''[object Object]''
      else Inl (NotCallable (path @ ''.toString'')))"

section \<open>Room codes\<close>

definition chars :: string where
  "chars = ''ABCDEFGHJKLMNPQRSTUVWXYZ23456789''"

text \<open>\<open>s.charAt(i)\<close>: the empty string out of range.\<close>

definition charAt :: "string \<Rightarrow> nat \<Rightarrow> string" where
  "charAt s i = (if i < length s then [s ! i] else [])"

text \<open>
  The loop of \<open>generateRoomId\<close>. \<open>rnd i\<close> stands for the value of
  \<open>Math.floor(Math.random() * chars.length)\<close> at the \<open>i\<close>-th draw of the handler that is
  running; \<open>Math.random()\<close> lies in \<open>[0, 1)\<close>, so a draw is below \<open>chars.length\<close>.
\<close>

function generateRoomId_loop :: "(nat \<Rightarrow> nat) \<Rightarrow> nat \<Rightarrow> string \<Rightarrow> string" where
  "generateRoomId_loop rnd i result =
     (if i < 6 then generateRoomId_loop rnd (Suc i) (result @ charAt chars (rnd i))
      else result)"
  by pat_completeness auto
termination
  by (relation "measure (\<lambda>(rnd, i, result). 6 - i)") auto

declare generateRoomId_loop.simps [simp del]

definition generateRoomId :: "(nat \<Rightarrow> nat) \<Rightarrow> string" where
  "generateRoomId rnd = generateRoomId_loop rnd 0 []"

text \<open>\<open>roomId && typeof roomId === 'string' && roomId.length >= 4\<close>\<close>

definition validateRoomId :: "jsval \<Rightarrow> bool" where
  "validateRoomId roomId =
     (truthy roomId \<and> (case roomId of JStr s \<Rightarrow> 4 \<le> length s | _ \<Rightarrow> False))"

text \<open>The characters the code's comment calls confusing, and the alphanumeric ones.\<close>

definition confusable :: "char set" where
  "confusable = {CHR ''0'', CHR ''O'', CHR ''1'', CHR ''I''}"

definition alphanumeric :: "char \<Rightarrow> bool" where
  "alphanumeric c = (c \<in> set ''ABCDEFGHIJKLMNOPQRSTUVWXYZabcdefghijklmnopqrstuvwxyz0123456789'')"

definition draws_ok :: "(nat \<Rightarrow> nat) \<Rightarrow> bool" where
  "draws_ok rnd = (\<forall>i \<in> {0..<12}. rnd i < length chars)"

section \<open>Server state\<close>

text \<open>
  A socket is a shared mutable object: a room slot holds a reference to it, and the handlers
  read \<open>room.tv.connected\<close> through that reference. The model keeps the sockets in a store
  indexed by their id, and a slot holds the id.
\<close>

type_synonym sid = string

datatype devtype = TV | Mobile

definition devtype_name :: "devtype \<Rightarrow> string" where
  "devtype_name d = (case d of TV \<Rightarrow> ''tv'' | Mobile \<Rightarrow> ''mobile'')"

text \<open>
  One reading of the server's clock: \<open>ms\<close> is \<open>Date.now()\<close>, \<open>iso\<close> is
  \<open>new Date().toISOString()\<close>. A handler runs with one reading.
\<close>

record clock =
  ms :: nat
  iso :: string

record socket =
  connected :: bool
  roomId :: "string option"
  deviceType :: "devtype option"
  deviceName :: jsval
  isHealthy :: bool
  lastPing :: "nat option"
  lastPong :: "nat option"
  connectedAt :: "string option"

record room =
  tv :: "sid option"
  mobile :: "sid option"
  createdAt :: nat

record stats =
  totalConnections :: int
  currentConnections :: int
  activeRooms :: int
  mobileConnections :: int
  tvConnections :: int

text \<open>\<open>rooms\<close> is a JavaScript \<open>Map\<close>: an association list in insertion order.\<close>

record state =
  rooms :: "(string \<times> room) list"
  sockets :: "sid \<Rightarrow> socket"
  stats :: stats

text \<open>
  What a handler asks of the transport, in the order of the calls: \<open>socket.emit\<close>,
  \<open>socket.join\<close>, \<open>socket.leave\<close> and \<open>socket.disconnect(true)\<close>.
\<close>

datatype action =
    Emit sid string jsval
  | Join sid string
  | Leave sid string
  | Disconnect sid

type_synonym result = "state \<times> action list"

definition new_socket :: socket where
  "new_socket = \<lparr>connected = False, roomId = None, deviceType = None, deviceName = JUndefined,
     isHealthy = False, lastPing = None, lastPong = None, connectedAt = None\<rparr>"

definition initial :: state where
  "initial = \<lparr>rooms = [], sockets = (\<lambda>s. new_socket),
     stats = \<lparr>totalConnections = 0, currentConnections = 0, activeRooms = 0,
       mobileConnections = 0, tvConnections = 0\<rparr>\<rparr>"

text \<open>Sequencing: run \<open>f\<close> on the state reached so far and append what it asks for.\<close>

definition andThen :: "result \<Rightarrow> (state \<Rightarrow> result) \<Rightarrow> result" where
  "andThen r f = (case f (fst r) of (st', acts) \<Rightarrow> (st', snd r @ acts))"

definition rooms_size :: "state \<Rightarrow> int" where
  "rooms_size st = int (length (rooms st))"

text \<open>A write to a field of the room object stored under \<open>k\<close>.\<close>

definition put_room :: "string \<Rightarrow> room \<Rightarrow> state \<Rightarrow> state" where
  "put_room k r st = st\<lparr>rooms := AList.update k r (rooms st)\<rparr>"

definition upd_socket :: "sid \<Rightarrow> (socket \<Rightarrow> socket) \<Rightarrow> state \<Rightarrow> state" where
  "upd_socket s f st = st\<lparr>sockets := (sockets st)(s := f (sockets st s))\<rparr>"

definition upd_stats :: "(stats \<Rightarrow> stats) \<Rightarrow> state \<Rightarrow> state" where
  "upd_stats f st = st\<lparr>stats := f (stats st)\<rparr>"

text \<open>\<open>x && x.connected\<close> for a slot \<open>x\<close>.\<close>

definition live :: "state \<Rightarrow> sid option \<Rightarrow> bool" where
  "live st slot = (case slot of None \<Rightarrow> False | Some x \<Rightarrow> connected (sockets st x))"

text \<open>
  \<open>x.disconnect(true)\<close>: the connection is closed, so the socket's \<open>connected\<close> flag drops.
  The transport reports the closed connection by the socket's own \<open>disconnect\<close> event, which
  is an operation of its own (\<open>disconnect\<close> below).
\<close>

definition force_disconnect :: "sid \<Rightarrow> state \<Rightarrow> result" where
  "force_disconnect x st = (upd_socket x (\<lambda>k. k\<lparr>connected := False\<rparr>) st, [Disconnect x])"

definition error_payload :: "string \<Rightarrow> string \<Rightarrow> (string \<times> jsval) list \<Rightarrow> jsval" where
  "error_payload msg code extra = JObj ([(''message'', JStr msg), (''code'', JStr code)] @ extra)"

definition emit_error :: "sid \<Rightarrow> string \<Rightarrow> string \<Rightarrow> (string \<times> jsval) list \<Rightarrow> action" where
  "emit_error s msg code extra = Emit s ''error'' (error_payload msg code extra)"

section \<open>Room cleanup\<close>

definition cleanupRoom :: "string \<Rightarrow> string \<Rightarrow> state \<Rightarrow> result" where
  "cleanupRoom k reason st =
     (case map_of (rooms st) k of
        None \<Rightarrow> (st, [])
      | Some r \<Rightarrow>
          (upd_stats (\<lambda>c. c\<lparr>activeRooms := int (length (AList.delete k (rooms st)))\<rparr>)
             (st\<lparr>rooms := AList.delete k (rooms st)\<rparr>),
           (case tv r of
              Some t \<Rightarrow> if connected (sockets st t)
                then [Leave t k, Emit t ''room_cleanup'' (JObj [(''reason'', JStr reason)])] else []
            | None \<Rightarrow> [])
           @ (case mobile r of
              Some m \<Rightarrow> if connected (sockets st m)
                then [Leave m k, Emit m ''room_cleanup'' (JObj [(''reason'', JStr reason)])] else []
            | None \<Rightarrow> [])))"

section \<open>Registration of a display: \<open>register_tv\<close>\<close>

text \<open>
  The room id the handler works with: the caller's \<open>roomId\<close> in string form when it is
  truthy, a generated one otherwise; a string that fails \<open>validateRoomId\<close> is replaced by a
  generated one. A second call of \<open>generateRoomId\<close> in the same handler takes the next six
  draws.
\<close>

definition tv_room_id :: "(nat \<Rightarrow> nat) \<Rightarrow> jsval \<Rightarrow> js_exn + string" where
  "tv_room_id rnd data =
     (if truthy (opt_prop data ''roomId'')
      then (case js_toString ''data.roomId'' (opt_prop data ''roomId'') of
              Inl e \<Rightarrow> Inl e
            | Inr k \<Rightarrow> Inr (if \<not> validateRoomId (JStr k) then generateRoomId rnd else k))
      else (let k = generateRoomId rnd
            in Inr (if \<not> validateRoomId (JStr k) then generateRoomId (\<lambda>i. rnd (i + 6)) else k)))"

text \<open>"Check if room already has a TV": the incumbent is told, leaves and is disconnected.\<close>

definition replace_tv :: "clock \<Rightarrow> sid \<Rightarrow> string \<Rightarrow> state \<Rightarrow> result" where
  "replace_tv now s k st =
     (case map_of (rooms st) k of
        None \<Rightarrow> (st, [])
      | Some existingRoom \<Rightarrow>
          if live st (tv existingRoom) then
            (case tv existingRoom of
               None \<Rightarrow> (st, [])
             | Some t \<Rightarrow>
                 if t \<noteq> s then
                   andThen
                     (andThen
                        (st, [Emit t ''replaced''
                                (JObj [(''message'', JStr ''New TV connected to this room''),
                                       (''timestamp'', JStr (iso now))]),
                              Leave t k])
                        (\<lambda>st1. if connected (sockets st1 t) then force_disconnect t st1
                               else (st1, [])))
                     (\<lambda>st2. (upd_stats
                               (\<lambda>c. c\<lparr>tvConnections := max 0 (tvConnections c - 1)\<rparr>) st2, []))
                 else (st, []))
          else (st, []))"

text \<open>"Create or update room"\<close>

definition create_room :: "clock \<Rightarrow> string \<Rightarrow> state \<Rightarrow> state" where
  "create_room now k st =
     (if map_of (rooms st) k = None then
        (let st1 = put_room k \<lparr>tv = None, mobile = None, createdAt = ms now\<rparr> st
         in upd_stats (\<lambda>c. c\<lparr>activeRooms := rooms_size st1\<rparr>) st1)
      else st)"

text \<open>"Set this socket as the TV for the room", the confirmation and the notices.\<close>

definition install_tv :: "clock \<Rightarrow> sid \<Rightarrow> jsval \<Rightarrow> string \<Rightarrow> state \<Rightarrow> result" where
  "install_tv now s data k st =
     (case map_of (rooms st) k of
        None \<Rightarrow>
          (st, [emit_error s ''TV registration failed'' ''TV_REGISTRATION_ERROR''
                  [(''details'', JStr (message (CannotSet ''tv'')))]])
      | Some r \<Rightarrow>
          (let st1 = put_room k (r\<lparr>tv := Some s\<rparr>) st;
               st2 = upd_socket s (\<lambda>x. x\<lparr>roomId := Some k, deviceType := Some TV,
                        deviceName := js_or (opt_prop data ''deviceName'') (JStr ''TV Display'')\<rparr>) st1;
               st3 = upd_stats (\<lambda>c. c\<lparr>tvConnections := tvConnections c + 1\<rparr>) st2
           in (st3,
               [Join s k,
                Emit s ''registered''
                  (JObj [(''deviceType'', JStr ''tv''), (''roomId'', JStr k),
                         (''clientId'', JStr s), (''timestamp'', JStr (iso now)),
                         (''message'', JStr ''TV registered successfully'')])]
               @ (case mobile r of
                    None \<Rightarrow> []
                  | Some m \<Rightarrow>
                      if connected (sockets st3 m) then
                        [Emit m ''tv_connected''
                           (JObj [(''status'', JStr ''tv_connected''), (''deviceId'', JStr s),
                                  (''deviceName'', deviceName (sockets st3 s)),
                                  (''timestamp'', JStr (iso now))]),
                         Emit s ''mobile_connected''
                           (JObj [(''status'', JStr ''mobile_connected''), (''deviceId'', JStr m),
                                  (''deviceName'',
                                     js_or (deviceName (sockets st3 m)) (JStr ''Mobile Controller'')),
                                  (''timestamp'', JStr (iso now))])]
                      else []))))"

definition register_tv :: "(nat \<Rightarrow> nat) \<Rightarrow> clock \<Rightarrow> sid \<Rightarrow> jsval \<Rightarrow> state \<Rightarrow> result" where
  "register_tv rnd now s data st =
     (case tv_room_id rnd data of
        Inl e \<Rightarrow>
          (st, [emit_error s ''TV registration failed'' ''TV_REGISTRATION_ERROR''
                  [(''details'', JStr (message e))]])
      | Inr k \<Rightarrow>
          andThen (replace_tv now s k st)
            (\<lambda>st1. install_tv now s data k (create_room now k st1)))"

section \<open>Registration of a controller: \<open>register_mobile\<close>\<close>

text \<open>\<open>data?.roomId ? data.roomId.toString() : null\<close>\<close>

definition mobile_room_id :: "jsval \<Rightarrow> js_exn + string option" where
  "mobile_room_id data =
     (if truthy (opt_prop data ''roomId'')
      then (case js_toString ''data.roomId'' (opt_prop data ''roomId'') of
              Inl e \<Rightarrow> Inl e
            | Inr k \<Rightarrow> Inr (Some k))
      else Inr None)"

text \<open>"Disconnect previous mobile if exists"\<close>

definition replace_mobile :: "clock \<Rightarrow> sid \<Rightarrow> string \<Rightarrow> room \<Rightarrow> state \<Rightarrow> result" where
  "replace_mobile now s k r st =
     (case mobile r of
        None \<Rightarrow> (st, [])
      | Some m \<Rightarrow>
          if connected (sockets st m) \<and> m \<noteq> s then
            andThen
              (andThen
                 (st, [Emit m ''replaced''
                         (JObj [(''message'', JStr ''New mobile device connected to this room''),
                                (''timestamp'', JStr (iso now))]),
                       Leave m k])
                 (force_disconnect m))
              (\<lambda>st2. (upd_stats
                        (\<lambda>c. c\<lparr>mobileConnections := max 0 (mobileConnections c - 1)\<rparr>) st2, []))
          else (st, []))"

text \<open>
  "Set this socket as the mobile for the room", the confirmation and the notice to the
  display \<open>t\<close> that the caller found in the room.
\<close>

definition install_mobile ::
  "clock \<Rightarrow> sid \<Rightarrow> jsval \<Rightarrow> string \<Rightarrow> room \<Rightarrow> sid \<Rightarrow> state \<Rightarrow> result" where
  "install_mobile now s data k r t st =
     (let st1 = put_room k (r\<lparr>mobile := Some s\<rparr>) st;
          st2 = upd_socket s (\<lambda>x. x\<lparr>roomId := Some k, deviceType := Some Mobile,
                   deviceName := js_or (opt_prop data ''deviceName'') (JStr ''Mobile Controller'')\<rparr>) st1;
          st3 = upd_stats (\<lambda>c. c\<lparr>mobileConnections := mobileConnections c + 1\<rparr>) st2
      in (st3,
          [Join s k,
           Emit s ''registered''
             (JObj [(''deviceType'', JStr ''mobile''), (''roomId'', JStr k),
                    (''clientId'', JStr s), (''connectedTV'', JBool True), (''tvId'', JStr t),
                    (''timestamp'', JStr (iso now)),
                    (''message'', JStr ''Mobile registered successfully'')]),
           Emit t ''mobile_connected''
             (JObj [(''status'', JStr ''mobile_connected''), (''deviceId'', JStr s),
                    (''deviceName'', deviceName (sockets st3 s)),
                    (''timestamp'', JStr (iso now))])]))"

definition register_mobile :: "clock \<Rightarrow> sid \<Rightarrow> jsval \<Rightarrow> state \<Rightarrow> result" where
  "register_mobile now s data st =
     (case mobile_room_id data of
        Inl e \<Rightarrow>
          (st, [emit_error s ''Mobile registration failed'' ''MOBILE_REGISTRATION_ERROR''
                  [(''details'', JStr (message e))]])
      | Inr None \<Rightarrow>
          (st, [emit_error s ''Room ID is required for mobile registration''
                  ''ROOM_ID_REQUIRED'' []])
      | Inr (Some k) \<Rightarrow>
          if k = [] then
            (st, [emit_error s ''Room ID is required for mobile registration''
                    ''ROOM_ID_REQUIRED'' []])
          else if \<not> validateRoomId (JStr k) then
            (st, [emit_error s ''Invalid room ID format'' ''INVALID_ROOM_ID'' []])
          else
            (case map_of (rooms st) k of
               None \<Rightarrow>
                 (st, [emit_error s
                    ''Room not found. Make sure the TV is connected and displaying the correct room code.''
                    ''ROOM_NOT_FOUND'' [(''roomId'', JStr k)]])
             | Some r \<Rightarrow>
                 (case tv r of
                    None \<Rightarrow>
                      (st, [emit_error s
                         ''No TV connected in this room. Please make sure the TV is online.''
                         ''NO_TV_IN_ROOM'' [(''roomId'', JStr k)]])
                  | Some t \<Rightarrow>
                      if \<not> connected (sockets st t) then
                        (st, [emit_error s
                           ''No TV connected in this room. Please make sure the TV is online.''
                           ''NO_TV_IN_ROOM'' [(''roomId'', JStr k)]])
                      else andThen (replace_mobile now s k r st)
                             (install_mobile now s data k r t))))"

section \<open>Relay from the controller to the display\<close>

text \<open>\<open>!socket.roomId\<close>\<close>

definition no_roomId :: "socket \<Rightarrow> bool" where
  "no_roomId x = (case roomId x of None \<Rightarrow> True | Some k \<Rightarrow> k = [])"

text \<open>\<open>rooms.get(k)?.tv\<close> when it is connected.\<close>

definition connected_tv :: "state \<Rightarrow> string \<Rightarrow> sid option" where
  "connected_tv st k =
     (case map_of (rooms st) k of
        None \<Rightarrow> None
      | Some r \<Rightarrow> (case tv r of
                    None \<Rightarrow> None
                  | Some t \<Rightarrow> if connected (sockets st t) then Some t else None))"

text \<open>
  The two guards every typed handler starts with: the sender is a controller with a room,
  and the room has a connected display. \<open>body k t\<close> is the rest of the handler, for the
  sender's room \<open>k\<close> and its display \<open>t\<close>.
\<close>

definition from_controller ::
  "sid \<Rightarrow> state \<Rightarrow> string \<Rightarrow> string \<Rightarrow> (string \<Rightarrow> sid \<Rightarrow> action list) \<Rightarrow> result" where
  "from_controller s st msg code body =
     (if deviceType (sockets st s) \<noteq> Some Mobile \<or> no_roomId (sockets st s) then
        (st, [emit_error s msg code []])
      else
        (case roomId (sockets st s) of
           None \<Rightarrow> (st, [emit_error s msg code []])
         | Some k \<Rightarrow>
             (case connected_tv st k of
                None \<Rightarrow> (st, [emit_error s ''TV not connected in this room'' ''NO_TV_IN_ROOM'' []])
              | Some t \<Rightarrow> (st, body k t))))"

text \<open>The \<open>catch\<close> block of a handler.\<close>

definition caught :: "sid \<Rightarrow> string \<Rightarrow> string \<Rightarrow> js_exn + action list \<Rightarrow> action list" where
  "caught s msg code r =
     (case r of
        Inl e \<Rightarrow> [emit_error s msg code [(''details'', JStr (message e))]]
      | Inr acts \<Rightarrow> acts)"

definition slide_change :: "clock \<Rightarrow> sid \<Rightarrow> jsval \<Rightarrow> state \<Rightarrow> result" where
  "slide_change now s data st =
     from_controller s st ''Unauthorized: Only mobile devices in a room can change slides''
       ''UNAUTHORIZED_SLIDE_CHANGE''
       (\<lambda>k t. caught s ''Failed to change slide'' ''SLIDE_CHANGE_ERROR''
          (case get_prop data ''slideIndex'' of
             Inl e \<Rightarrow> Inl e
           | Inr (JNum n) \<Rightarrow>
               if n < 0 then Inr [emit_error s ''Invalid slide index'' ''INVALID_SLIDE_INDEX'' []]
               else Inr
                 [Emit t ''slide_change''
                    (JObj [(''slideIndex'', JNum n), (''roomId'', JStr k),
                           (''timestamp'', JStr (iso now)), (''from'', JStr s)]),
                  Emit s ''slide_change_ack''
                    (JObj [(''slideIndex'', JNum n), (''timestamp'', JStr (iso now))])]
           | Inr v \<Rightarrow> Inr [emit_error s ''Invalid slide index'' ''INVALID_SLIDE_INDEX'' []]))"

text \<open>
  Once one property of \<open>data\<close> has been read, \<open>data\<close> is neither \<open>null\<close> nor \<open>undefined\<close>
  and the later reads cannot throw: they are written with \<open>opt_prop\<close>.
\<close>

definition pdf_scroll :: "clock \<Rightarrow> sid \<Rightarrow> jsval \<Rightarrow> state \<Rightarrow> result" where
  "pdf_scroll now s data st =
     from_controller s st ''Unauthorized: Only mobile devices in a room can scroll PDF''
       ''UNAUTHORIZED_PDF_SCROLL''
       (\<lambda>k t. caught s ''Failed to scroll PDF'' ''PDF_SCROLL_ERROR''
          (case get_prop data ''scrollOffset'' of
             Inl e \<Rightarrow> Inl e
           | Inr (JNum n) \<Rightarrow> Inr
               [Emit t ''pdf_scroll''
                  (JObj [(''scrollOffset'', JNum n),
                         (''pageNumber'', js_or (opt_prop data ''pageNumber'') (JNum 1)),
                         (''roomId'', JStr k), (''timestamp'', JStr (iso now)),
                         (''from'', JStr s)])]
           | Inr v \<Rightarrow> Inr [emit_error s ''Invalid scroll offset'' ''INVALID_SCROLL_OFFSET'' []]))"

definition pdf_page_change :: "clock \<Rightarrow> sid \<Rightarrow> jsval \<Rightarrow> state \<Rightarrow> result" where
  "pdf_page_change now s data st =
     from_controller s st ''Unauthorized: Only mobile devices in a room can change PDF pages''
       ''UNAUTHORIZED_PDF_PAGE_CHANGE''
       (\<lambda>k t. caught s ''Failed to change PDF page'' ''PDF_PAGE_CHANGE_ERROR''
          (case get_prop data ''pageNumber'' of
             Inl e \<Rightarrow> Inl e
           | Inr (JNum n) \<Rightarrow>
               if n < 1 then Inr [emit_error s ''Invalid page number'' ''INVALID_PAGE_NUMBER'' []]
               else Inr
                 [Emit t ''pdf_page_change''
                    (JObj [(''pageNumber'', JNum n), (''roomId'', JStr k),
                           (''timestamp'', JStr (iso now)), (''from'', JStr s)])]
           | Inr v \<Rightarrow> Inr [emit_error s ''Invalid page number'' ''INVALID_PAGE_NUMBER'' []]))"

definition presentation_action :: "clock \<Rightarrow> sid \<Rightarrow> jsval \<Rightarrow> state \<Rightarrow> result" where
  "presentation_action now s data st =
     from_controller s st
       ''Unauthorized: Only mobile devices in a room can send presentation actions''
       ''UNAUTHORIZED_PRESENTATION_ACTION''
       (\<lambda>k t. caught s ''Failed to execute presentation action'' ''PRESENTATION_ACTION_ERROR''
          (case get_prop data ''action'' of
             Inl e \<Rightarrow> Inl e
           | Inr a \<Rightarrow>
               if \<not> truthy a then Inr [emit_error s ''Action is required'' ''MISSING_ACTION'' []]
               else Inr
                 [Emit t ''presentation_action''
                    (JObj [(''action'', a),
                           (''params'', js_or (opt_prop data ''params'') (JObj [])),
                           (''roomId'', JStr k), (''timestamp'', JStr (iso now)),
                           (''from'', JStr s)])]))"

definition load_document :: "clock \<Rightarrow> sid \<Rightarrow> jsval \<Rightarrow> state \<Rightarrow> result" where
  "load_document now s data st =
     from_controller s st ''Unauthorized: Only mobile devices in a room can load documents''
       ''UNAUTHORIZED_LOAD_DOCUMENT''
       (\<lambda>k t. caught s ''Failed to load document'' ''LOAD_DOCUMENT_ERROR''
          (case get_prop data ''documentType'' of
             Inl e \<Rightarrow> Inl e
           | Inr ty \<Rightarrow>
               if \<not> truthy ty \<or> \<not> truthy (opt_prop data ''documentUrl'') then
                 Inr [emit_error s ''Document type and URL are required''
                        ''MISSING_DOCUMENT_INFO'' []]
               else Inr
                 [Emit t ''load_document''
                    (JObj [(''documentType'', ty),
                           (''documentUrl'', opt_prop data ''documentUrl''),
                           (''metadata'', js_or (opt_prop data ''metadata'') (JObj [])),
                           (''roomId'', JStr k), (''timestamp'', JStr (iso now)),
                           (''from'', JStr s)])]))"

section \<open>Custom events, health messages\<close>

text \<open>
  \<open>{...data}\<close>: the entries of an object, the indexed characters of a string, nothing for
  any other value.
\<close>

definition spread :: "jsval \<Rightarrow> (string \<times> jsval) list" where
  "spread data =
     (case data of
        JObj fs \<Rightarrow> fs
      | JStr str \<Rightarrow> map (\<lambda>i. (dec_nat i, JStr [str ! i])) [0..<length str]
      | _ \<Rightarrow> [])"

text \<open>An object literal whose later entries overwrite earlier ones of the same key.\<close>

definition with_fields :: "(string \<times> jsval) list \<Rightarrow> (string \<times> jsval) list \<Rightarrow> jsval" where
  "with_fields fs extra = JObj (foldl (\<lambda>acc (k, v). AList.update k v acc) fs extra)"

definition custom_event :: "clock \<Rightarrow> sid \<Rightarrow> jsval \<Rightarrow> state \<Rightarrow> result" where
  "custom_event now s data st =
     (if no_roomId (sockets st s) then (st, [emit_error s ''Not in a room'' ''NO_ROOM'' []])
      else
        (case roomId (sockets st s) of
           None \<Rightarrow> (st, [emit_error s ''Not in a room'' ''NO_ROOM'' []])
         | Some k \<Rightarrow>
             (case map_of (rooms st) k of
                None \<Rightarrow> (st, [emit_error s ''Room not found'' ''ROOM_NOT_FOUND'' []])
              | Some r \<Rightarrow>
                  (st, caught s ''Failed to send custom event'' ''CUSTOM_EVENT_ERROR''
                     (case get_prop data ''eventType'' of
                        Inl e \<Rightarrow> Inl e
                      | Inr ty \<Rightarrow>
                          (case (if deviceType (sockets st s) = Some Mobile then tv r
                                 else mobile r) of
                             None \<Rightarrow> Inr
                               [emit_error s
                                  ((if deviceType (sockets st s) = Some Mobile then ''TV''
                                    else ''Mobile'') @ '' not connected in this room'')
                                  ''TARGET_DEVICE_NOT_CONNECTED'' []]
                           | Some target \<Rightarrow>
                               if connected (sockets st target) then Inr
                                 [Emit target ''custom_event''
                                    (with_fields (spread data)
                                       [(''roomId'', JStr k), (''timestamp'', JStr (iso now)),
                                        (''from'', JStr s),
                                        (''fromDevice'',
                                           (case deviceType (sockets st s) of
                                              None \<Rightarrow> JUndefined
                                            | Some d \<Rightarrow> JStr (devtype_name d)))])]
                               else Inr
                                 [emit_error s
                                    ((if deviceType (sockets st s) = Some Mobile then ''TV''
                                      else ''Mobile'') @ '' not connected in this room'')
                                    ''TARGET_DEVICE_NOT_CONNECTED'' []]))))))"

definition ping :: "clock \<Rightarrow> sid \<Rightarrow> state \<Rightarrow> result" where
  "ping now s st =
     (upd_socket s (\<lambda>x. x\<lparr>isHealthy := True, lastPing := Some (ms now)\<rparr>) st,
      [Emit s ''pong'' (JObj [(''timestamp'', JStr (iso now)), (''clientId'', JStr s)])])"

definition pong :: "clock \<Rightarrow> sid \<Rightarrow> state \<Rightarrow> result" where
  "pong now s st = (upd_socket s (\<lambda>x. x\<lparr>isHealthy := True, lastPong := Some (ms now)\<rparr>) st, [])"

definition connection_test :: "clock \<Rightarrow> sid \<Rightarrow> jsval \<Rightarrow> state \<Rightarrow> result" where
  "connection_test now s data st =
     (st, [Emit s ''connection_test_response''
             (JObj [(''received'', data), (''timestamp'', JStr (iso now)),
                    (''serverId'', JStr s), (''status'', JStr ''connected'')])])"

definition socket_error :: "clock \<Rightarrow> sid \<Rightarrow> state \<Rightarrow> result" where
  "socket_error now s st =
     (st, [Emit s ''error_ack''
             (JObj [(''message'', JStr ''Socket error received''),
                    (''timestamp'', JStr (iso now))])])"

section \<open>Connection and disconnection\<close>

definition connection :: "clock \<Rightarrow> sid \<Rightarrow> state \<Rightarrow> result" where
  "connection now s st =
     (upd_socket s
        (\<lambda>x. new_socket\<lparr>connected := True, connectedAt := Some (iso now), isHealthy := True\<rparr>)
        (upd_stats (\<lambda>c. c\<lparr>totalConnections := totalConnections c + 1,
                         currentConnections := currentConnections c + 1\<rparr>) st),
      [Emit s ''connected''
         (JObj [(''message'', JStr ''Connected to Flutter Presentation Server''),
                (''clientId'', JStr s), (''serverVersion'', JStr ''2.2.0''),
                (''timestamp'', JStr (iso now))])])"

text \<open>
  The slot-clearing step of the \<open>disconnect\<close> handler for the room \<open>k\<close>, \<open>r\<close> of the socket:
  the display's branch, else the controller's branch, else nothing.
\<close>

definition clear_slot :: "clock \<Rightarrow> sid \<Rightarrow> string \<Rightarrow> string \<Rightarrow> room \<Rightarrow> state \<Rightarrow> result" where
  "clear_slot now s reason k r st =
     (if deviceType (sockets st s) = Some TV \<and> tv r = Some s then
        (upd_stats (\<lambda>c. c\<lparr>tvConnections := max 0 (tvConnections c - 1)\<rparr>)
           (put_room k (r\<lparr>tv := None\<rparr>) st),
         (case mobile r of
            None \<Rightarrow> []
          | Some m \<Rightarrow>
              if connected (sockets st m) then
                [Emit m ''tv_disconnected''
                   (JObj [(''status'', JStr ''disconnected''), (''deviceId'', JStr s),
                          (''reason'', JStr reason), (''timestamp'', JStr (iso now))])]
              else []))
      else if deviceType (sockets st s) = Some Mobile \<and> mobile r = Some s then
        (upd_stats (\<lambda>c. c\<lparr>mobileConnections := max 0 (mobileConnections c - 1)\<rparr>)
           (put_room k (r\<lparr>mobile := None\<rparr>) st),
         (case tv r of
            None \<Rightarrow> []
          | Some t \<Rightarrow>
              if connected (sockets st t) then
                [Emit t ''mobile_disconnected''
                   (JObj [(''status'', JStr ''disconnected''), (''deviceId'', JStr s),
                          (''reason'', JStr reason), (''timestamp'', JStr (iso now))])]
              else []))
      else (st, []))"

text \<open>"Clean up empty rooms"\<close>

definition cleanup_if_empty :: "string \<Rightarrow> state \<Rightarrow> result" where
  "cleanup_if_empty k st =
     (case map_of (rooms st) k of
        None \<Rightarrow> (st, [])
      | Some r \<Rightarrow>
          if \<not> live st (tv r) \<and> \<not> live st (mobile r)
          then cleanupRoom k ''all_devices_disconnected'' st
          else (st, []))"

text \<open>
  The \<open>disconnect\<close> event of socket \<open>s\<close>. The transport fires it once the connection is
  closed, so the handler runs with \<open>s.connected\<close> false.
\<close>

definition disconnect :: "clock \<Rightarrow> sid \<Rightarrow> string \<Rightarrow> state \<Rightarrow> result" where
  "disconnect now s reason st0 =
     (let st = upd_stats (\<lambda>c. c\<lparr>currentConnections := max 0 (currentConnections c - 1)\<rparr>)
                 (upd_socket s (\<lambda>x. x\<lparr>connected := False\<rparr>) st0)
      in if no_roomId (sockets st s) then (st, [])
         else
           (case roomId (sockets st s) of
              None \<Rightarrow> (st, [])
            | Some k \<Rightarrow>
                (case map_of (rooms st) k of
                   None \<Rightarrow> (st, [])
                 | Some r \<Rightarrow> andThen (clear_slot now s reason k r st) (cleanup_if_empty k))))"

section \<open>Periodic sweeps\<close>

text \<open>
  \<open>for (const [roomId, room] of rooms.entries())\<close>: the body runs for the keys in insertion
  order; an entry deleted before its turn is skipped by the body's own lookup.
\<close>

fun for_rooms :: "(string \<Rightarrow> state \<Rightarrow> result) \<Rightarrow> string list \<Rightarrow> state \<Rightarrow> result" where
  "for_rooms f [] st = (st, [])"
| "for_rooms f (k # ks) st = andThen (f k st) (for_rooms f ks)"

definition ping_slot :: "clock \<Rightarrow> state \<Rightarrow> sid option \<Rightarrow> action list" where
  "ping_slot now st slot =
     (case slot of
        None \<Rightarrow> []
      | Some x \<Rightarrow>
          if connected (sockets st x) then
            [Emit x ''ping'' (JObj [(''timestamp'', JStr (iso now)),
                                    (''type'', JStr ''health_check'')])]
          else [])"

definition health_check :: "clock \<Rightarrow> state \<Rightarrow> result" where
  "health_check now st =
     for_rooms
       (\<lambda>k st1. case map_of (rooms st1) k of
                  None \<Rightarrow> (st1, [])
                | Some r \<Rightarrow> (st1, ping_slot now st1 (mobile r) @ ping_slot now st1 (tv r)))
       (map fst (rooms st)) st"

text \<open>\<open>!x.connected || (x.lastPong && (now - x.lastPong) > timeout)\<close>, with the 2 minutes.\<close>

definition isUnhealthy :: "clock \<Rightarrow> state \<Rightarrow> sid \<Rightarrow> bool" where
  "isUnhealthy now st x =
     (\<not> connected (sockets st x)
      \<or> (case lastPong (sockets st x) of
           None \<Rightarrow> False
         | Some p \<Rightarrow> int (ms now) - int p > 120000))"

text \<open>"this client is unhealthy, removing...": the timeout notice and the disconnect.\<close>

definition drop_client :: "sid \<Rightarrow> state \<Rightarrow> result" where
  "drop_client x st =
     (if connected (sockets st x) then
        andThen (st, [Emit x ''connection_timeout''
                        (JObj [(''message'', JStr ''Connection timed out'')])])
          (force_disconnect x)
      else (st, []))"

text \<open>
  One turn of the cleanup loop for the entry \<open>k\<close>, \<open>r\<close>: the controller's check, the
  display's check on the room as the first check left it, and the cleanup when
  \<open>roomNeedsCleanup\<close> came out true.
\<close>

definition check_mobile :: "clock \<Rightarrow> string \<Rightarrow> room \<Rightarrow> state \<Rightarrow> (room \<times> bool) \<times> result" where
  "check_mobile now k r st =
     (case mobile r of
        None \<Rightarrow> ((r, False), (st, []))
      | Some m \<Rightarrow>
          if isUnhealthy now st m then
            (case drop_client m st of
               (st1, acts) \<Rightarrow>
                 (let r1 = r\<lparr>mobile := None\<rparr>;
                      st2 = upd_stats
                              (\<lambda>c. c\<lparr>mobileConnections := max 0 (mobileConnections c - 1)\<rparr>)
                              (put_room k r1 st1)
                  in ((r1, \<not> live st2 (tv r1)), (st2, acts))))
          else ((r, False), (st, [])))"

definition check_tv ::
  "clock \<Rightarrow> string \<Rightarrow> room \<Rightarrow> bool \<Rightarrow> state \<Rightarrow> (room \<times> bool) \<times> result" where
  "check_tv now k r roomNeedsCleanup st =
     (case tv r of
        None \<Rightarrow> ((r, roomNeedsCleanup), (st, []))
      | Some t \<Rightarrow>
          if isUnhealthy now st t then
            (case drop_client t st of
               (st1, acts) \<Rightarrow>
                 (let r1 = r\<lparr>tv := None\<rparr>;
                      st2 = upd_stats (\<lambda>c. c\<lparr>tvConnections := max 0 (tvConnections c - 1)\<rparr>)
                              (put_room k r1 st1)
                  in ((r1, roomNeedsCleanup \<or> \<not> live st2 (mobile r1)), (st2, acts))))
          else ((r, roomNeedsCleanup), (st, [])))"

definition cleanup_turn :: "clock \<Rightarrow> string \<Rightarrow> state \<Rightarrow> result" where
  "cleanup_turn now k st =
     (case map_of (rooms st) k of
        None \<Rightarrow> (st, [])
      | Some r \<Rightarrow>
          (case check_mobile now k r st of
             ((r1, n1), (st1, acts1)) \<Rightarrow>
               (case check_tv now k r1 n1 st1 of
                  ((r2, n2), (st2, acts2)) \<Rightarrow>
                    if n2 then
                      andThen (st2, acts1 @ acts2) (cleanupRoom k ''unhealthy_connections'')
                    else (st2, acts1 @ acts2))))"

definition cleanup_unhealthy :: "clock \<Rightarrow> state \<Rightarrow> result" where
  "cleanup_unhealthy now st = for_rooms (cleanup_turn now) (map fst (rooms st)) st"

definition ROOM_TIMEOUT :: int where
  "ROOM_TIMEOUT = 30 * 60 * 1000"

definition expired :: "clock \<Rightarrow> state \<Rightarrow> room \<Rightarrow> bool" where
  "expired now st r =
     ((\<not> live st (tv r) \<and> \<not> live st (mobile r))
      \<and> int (ms now) - int (createdAt r) > ROOM_TIMEOUT)"

definition cleanup_expired :: "clock \<Rightarrow> state \<Rightarrow> result" where
  "cleanup_expired now st =
     for_rooms (\<lambda>k. cleanupRoom k ''expired'')
       (map fst (filter (\<lambda>(k, r). expired now st r) (rooms st))) st"

section \<open>The server as a transition system\<close>

datatype event =
    Connection sid
  | Register_tv "nat \<Rightarrow> nat" sid jsval
  | Register_mobile sid jsval
  | Slide_change sid jsval
  | Pdf_scroll sid jsval
  | Pdf_page_change sid jsval
  | Presentation_action sid jsval
  | Load_document sid jsval
  | Custom_event sid jsval
  | Ping sid
  | Pong sid
  | Connection_test sid jsval
  | Disconnected sid string
  | Socket_error sid
  | Health_check
  | Cleanup_unhealthy
  | Cleanup_expired

fun step :: "clock \<Rightarrow> event \<Rightarrow> state \<Rightarrow> result" where
  "step now (Connection s) st = connection now s st"
| "step now (Register_tv rnd s data) st = register_tv rnd now s data st"
| "step now (Register_mobile s data) st = register_mobile now s data st"
| "step now (Slide_change s data) st = slide_change now s data st"
| "step now (Pdf_scroll s data) st = pdf_scroll now s data st"
| "step now (Pdf_page_change s data) st = pdf_page_change now s data st"
| "step now (Presentation_action s data) st = presentation_action now s data st"
| "step now (Load_document s data) st = load_document now s data st"
| "step now (Custom_event s data) st = custom_event now s data st"
| "step now (Ping s) st = ping now s st"
| "step now (Pong s) st = pong now s st"
| "step now (Connection_test s data) st = connection_test now s data st"
| "step now (Disconnected s reason) st = disconnect now s reason st"
| "step now (Socket_error s) st = socket_error now s st"
| "step now Health_check st = health_check now st"
| "step now Cleanup_unhealthy st = cleanup_unhealthy now st"
| "step now Cleanup_expired st = cleanup_expired now st"


section \<open>Observations used by the properties\<close>



text \<open>The draws that pick the first character of the alphabet every time.\<close>

definition zero_draws :: "nat \<Rightarrow> nat" where
  "zero_draws i = 0"

text \<open>A run of events, all at one clock reading, and the runs the examples start from.\<close>

definition run :: "clock \<Rightarrow> event list \<Rightarrow> state \<Rightarrow> state" where
  "run now evs st = foldl (\<lambda>st1 ev. fst (step now ev st1)) st evs"

definition t0 :: clock where
  "t0 = \<lparr>ms = 1000, iso = ''2024-01-01T00:00:00.000Z''\<rparr>"

text \<open>A display has registered under the code \<open>"1234"\<close>.\<close>

definition display_only :: state where
  "display_only = run t0 [Connection ''tv1'',
      Register_tv zero_draws ''tv1'' (JObj [(''roomId'', JStr ''1234'')])] initial"

text \<open>A second socket has connected.\<close>

definition waiting :: state where
  "waiting = run t0 [Connection ''m1''] display_only"

text \<open>It has joined the room as the controller, sending the code as the number \<open>1234\<close>.\<close>

definition paired :: state where
  "paired = run t0 [Register_mobile ''m1'' (JObj [(''roomId'', JNum 1234)])] waiting"


text \<open>A display registered without a code; a second socket has connected.\<close>

definition generated_room :: state where
  "generated_room = run t0 [Connection ''tv1'', Register_tv zero_draws ''tv1'' (JObj []),
      Connection ''tv2''] initial"

text \<open>
  Order of notice and disconnect in what a handler asks of the transport: every
  \<open>Disconnect x\<close> comes after a \<open>replaced\<close> event emitted to \<open>x\<close>. \<open>told\<close> collects the
  sockets that have been sent the notice so far.
\<close>

fun notice_first :: "sid list \<Rightarrow> action list \<Rightarrow> bool" where
  "notice_first told [] = True"
| "notice_first told (Emit x ev p # acts) =
     notice_first (if ev = ''replaced'' then x # told else told) acts"
| "notice_first told (Disconnect x # acts) = (x \<in> set told \<and> notice_first told acts)"
| "notice_first told (a # acts) = notice_first told acts"

text \<open>The actions that make up an eviction: the \<open>replaced\<close> notice and the disconnect.\<close>

fun is_eviction :: "action \<Rightarrow> bool" where
  "is_eviction (Emit x ev p) = (ev = ''replaced'')"
| "is_eviction (Disconnect x) = True"
| "is_eviction a = False"


text \<open>
  What one run of the \<open>disconnect\<close> handler of \<open>s\<close> leaves of the room \<open>k\<close>: the room is
  gone, or \<open>s\<close> is in neither slot by its own role and some occupant is connected.
\<close>

definition settled :: "sid \<Rightarrow> string \<Rightarrow> state \<Rightarrow> bool" where
  "settled s k st =
     (case map_of (rooms st) k of
        None \<Rightarrow> True
      | Some r \<Rightarrow>
          \<not> (deviceType (sockets st s) = Some TV \<and> tv r = Some s)
          \<and> \<not> (deviceType (sockets st s) = Some Mobile \<and> mobile r = Some s)
          \<and> (live st (tv r) \<or> live st (mobile r)))"

text \<open>The display a message of socket \<open>s\<close> is relayed to: the connected display of its room.\<close>

definition display_of :: "state \<Rightarrow> sid \<Rightarrow> sid option" where
  "display_of st s =
     (case roomId (sockets st s) of None \<Rightarrow> None | Some k \<Rightarrow> connected_tv st k)"

text \<open>A payload with every field the typed handlers read, and a timestamp of the sender's.\<close>

definition all_fields :: jsval where
  "all_fields = JObj [(''slideIndex'', JNum 3), (''scrollOffset'', JNum 10),
     (''pageNumber'', JNum 2), (''action'', JStr ''play''), (''documentType'', JStr ''pdf''),
     (''documentUrl'', JStr ''https://example.org/a.pdf''), (''timestamp'', JStr ''1999'')]"

section \<open>The single-pair server (\<open>server.js\<close>): presentation actions\<close>

text \<open>
  The older server keeps one controller and one display in \<open>clients\<close>, without rooms. Its
  \<open>presentation_action\<close> handler reads the sender's \<open>deviceType\<close> and \<open>clients.tv\<close>; every
  exception, the handler's own \<open>Invalid action\<close> included, ends in the \<open>catch\<close> block.
\<close>

definition validActions :: "string list" where
  "validActions = [''play'', ''pause'', ''stop'', ''next'', ''previous'', ''fullscreen'',
     ''exit_fullscreen'']"

text \<open>\<open>xs.includes(v)\<close> for an array of strings.\<close>

definition js_includes :: "string list \<Rightarrow> jsval \<Rightarrow> bool" where
  "js_includes xs v = (case v of JStr a \<Rightarrow> a \<in> set xs | _ \<Rightarrow> False)"

definition legacy_presentation_action ::
  "clock \<Rightarrow> sid \<Rightarrow> devtype option \<Rightarrow> sid option \<Rightarrow> jsval \<Rightarrow> action list" where
  "legacy_presentation_action now s dev clients_tv data =
     (case clients_tv of
        None \<Rightarrow>
          [emit_error s ''Unauthorized or TV not connected'' ''UNAUTHORIZED_OR_NO_TV'' []]
      | Some t \<Rightarrow>
          if dev = Some Mobile then
            (case get_prop data ''action'' of
               Inl e \<Rightarrow> [emit_error s ''Invalid presentation action'' ''INVALID_ACTION'' []]
             | Inr a \<Rightarrow>
                 if \<not> js_includes validActions a then
                   [emit_error s ''Invalid presentation action'' ''INVALID_ACTION'' []]
                 else
                   [Emit t ''presentation_action''
                      (with_fields (spread data)
                         [(''timestamp'', JStr (iso now)), (''from'', JStr s)])])
          else [emit_error s ''Unauthorized or TV not connected'' ''UNAUTHORIZED_OR_NO_TV'' []])"

text \<open>The action set in the wording of the specification, for comparison.\<close>

definition spec_actions :: "string list" where
  "spec_actions = [''play'', ''pause'', ''stop'', ''next'', ''previous'', ''fullscreen'',
     ''exit-fullscreen'']"

section \<open>Properties of generated room codes\<close>

lemma generateRoomId_loop_unfold:
  "i \<le> 6 \<Longrightarrow>
   generateRoomId_loop rnd i result = result @ concat (map (\<lambda>k. charAt chars (rnd k)) [i..<6])"
proof (induction rnd i result rule: generateRoomId_loop.induct)
  case (1 rnd i result)
  show ?case
  proof (cases "i < 6")
    case True
    then have "[i..<6] = i # [Suc i..<6]"
      by (simp add: upt_conv_Cons)
    with True "1.IH" show ?thesis
      by (simp add: generateRoomId_loop.simps [of rnd i])
  next
    case False
    with "1.prems" have "i = 6" by simp
    then show ?thesis
      by (simp add: generateRoomId_loop.simps [of rnd 6])
  qed
qed

lemma generateRoomId_concat:
  "generateRoomId rnd = concat (map (\<lambda>k. charAt chars (rnd k)) [0..<6])"
  by (simp add: generateRoomId_def generateRoomId_loop_unfold)

lemma length_chars: "length chars = 32"
  by (simp add: chars_def)

lemma generateRoomId_length:
  assumes "\<forall>i < 6. rnd i < length chars"
  shows "length (generateRoomId rnd) = 6"
proof -
  have six: "[0..<6] = [0, 1, 2, 3, 4, 5::nat]"
    by (simp add: upt_conv_Cons)
  from assms show ?thesis
    by (simp add: generateRoomId_concat six charAt_def)
qed

lemma generateRoomId_set: "set (generateRoomId rnd) \<subseteq> set chars"
  by (auto simp: generateRoomId_concat charAt_def)

lemma chars_alphanumeric: "c \<in> set chars \<Longrightarrow> alphanumeric c \<and> c \<notin> confusable"
  by (auto simp: chars_def alphanumeric_def confusable_def)

text \<open>
  Claim C8. A code produced by \<open>generateRoomId\<close> has six characters, hence a length
  between 4 and 6, and each character is alphanumeric, taken from the code's alphabet, and
  none of \<open>0\<close>, \<open>O\<close>, \<open>1\<close>, \<open>I\<close>.
\<close>

theorem generateRoomId_format:
  assumes "draws_ok rnd"
  shows "4 \<le> length (generateRoomId rnd) \<and> length (generateRoomId rnd) \<le> 6
         \<and> (\<forall>c \<in> set (generateRoomId rnd). c \<in> set chars \<and> alphanumeric c \<and> c \<notin> confusable)"
proof -
  from assms have "\<forall>i < 6. rnd i < length chars"
    by (simp add: draws_ok_def)
  then have "length (generateRoomId rnd) = 6"
    by (rule generateRoomId_length)
  moreover have "\<forall>c \<in> set (generateRoomId rnd). c \<in> set chars \<and> alphanumeric c \<and> c \<notin> confusable"
    using generateRoomId_set chars_alphanumeric by blast
  ultimately show ?thesis by simp
qed

theorem generateRoomId_format_witness:
  "draws_ok id \<and> generateRoomId id = ''ABCDEF''
   \<and> 4 \<le> length (generateRoomId id) \<and> length (generateRoomId id) \<le> 6
   \<and> set (generateRoomId id) \<inter> confusable = {}"
proof -
  have ok: "draws_ok id"
    by (simp add: draws_ok_def length_chars)
  have "generateRoomId id = ''ABCDEF''"
    by (simp add: generateRoomId_concat charAt_def chars_def upt_conv_Cons)
  with ok generateRoomId_format [OF ok] show ?thesis by auto
qed

section \<open>The example runs\<close>


lemma dec_int_1234: "dec_int 1234 = ''1234''"
  by code_simp

lemmas run_defs = run_def t0_def initial_def new_socket_def connection_def register_tv_def
  tv_room_id_def opt_prop_def field_def validateRoomId_def replace_tv_def create_room_def
  install_tv_def andThen_def put_room_def upd_socket_def upd_stats_def rooms_size_def
  live_def js_or_def register_mobile_def mobile_room_id_def replace_mobile_def
  install_mobile_def force_disconnect_def emit_error_def error_payload_def

lemma display_only_rooms:
  "rooms display_only = [(''1234'', \<lparr>tv = Some ''tv1'', mobile = None, createdAt = 1000\<rparr>)]"
  by (simp add: display_only_def run_defs)

lemma display_only_tv1:
  "sockets display_only ''tv1'' =
     \<lparr>connected = True, roomId = Some ''1234'', deviceType = Some TV,
      deviceName = JStr ''TV Display'', isHealthy = True, lastPing = None, lastPong = None,
      connectedAt = Some (iso t0)\<rparr>"
  by (simp add: display_only_def run_defs)

lemma waiting_rooms:
  "rooms waiting = [(''1234'', \<lparr>tv = Some ''tv1'', mobile = None, createdAt = 1000\<rparr>)]"
  by (simp add: waiting_def run_def connection_def upd_socket_def upd_stats_def
        display_only_rooms)

lemma waiting_tv1:
  "sockets waiting ''tv1'' =
     \<lparr>connected = True, roomId = Some ''1234'', deviceType = Some TV,
      deviceName = JStr ''TV Display'', isHealthy = True, lastPing = None, lastPong = None,
      connectedAt = Some (iso t0)\<rparr>"
  by (simp add: waiting_def run_def connection_def upd_socket_def upd_stats_def
        display_only_tv1)

lemma waiting_m1:
  "sockets waiting ''m1'' =
     \<lparr>connected = True, roomId = None, deviceType = None, deviceName = JUndefined,
      isHealthy = True, lastPing = None, lastPong = None, connectedAt = Some (iso t0)\<rparr>"
  by (simp add: waiting_def run_def connection_def upd_socket_def upd_stats_def
        new_socket_def)

lemma waiting_stats:
  "stats waiting = \<lparr>totalConnections = 2, currentConnections = 2, activeRooms = 1,
     mobileConnections = 0, tvConnections = 1\<rparr>"
  by (simp add: waiting_def display_only_def run_defs)

lemmas join_defs = run_def register_mobile_def mobile_room_id_def opt_prop_def field_def
  dec_int_1234 validateRoomId_def upd_socket_def upd_stats_def andThen_def
  replace_mobile_def install_mobile_def put_room_def js_or_def

lemma paired_rooms:
  "rooms paired = [(''1234'', \<lparr>tv = Some ''tv1'', mobile = Some ''m1'', createdAt = 1000\<rparr>)]"
  by (simp add: paired_def join_defs waiting_rooms waiting_tv1)

lemma paired_tv1:
  "sockets paired ''tv1'' =
     \<lparr>connected = True, roomId = Some ''1234'', deviceType = Some TV,
      deviceName = JStr ''TV Display'', isHealthy = True, lastPing = None, lastPong = None,
      connectedAt = Some (iso t0)\<rparr>"
  by (simp add: paired_def join_defs waiting_rooms waiting_tv1)

lemma paired_m1:
  "sockets paired ''m1'' =
     \<lparr>connected = True, roomId = Some ''1234'', deviceType = Some Mobile,
      deviceName = JStr ''Mobile Controller'', isHealthy = True, lastPing = None,
      lastPong = None, connectedAt = Some (iso t0)\<rparr>"
  by (simp add: paired_def join_defs waiting_rooms waiting_tv1 waiting_m1)

lemma paired_stats:
  "stats paired = \<lparr>totalConnections = 2, currentConnections = 2, activeRooms = 1,
     mobileConnections = 1, tvConnections = 1\<rparr>"
  by (simp add: paired_def join_defs waiting_rooms waiting_tv1 waiting_stats)


section \<open>Every room in the table has an occupant\<close>




lemma rooms_upd_socket [simp]: "rooms (upd_socket s f st) = rooms st"
  by (simp add: upd_socket_def)

lemma rooms_upd_stats [simp]: "rooms (upd_stats f st) = rooms st"
  by (simp add: upd_stats_def)

lemma rooms_put_room [simp]: "rooms (put_room k r st) = AList.update k r (rooms st)"
  by (simp add: put_room_def)

lemma sockets_upd_stats [simp]: "sockets (upd_stats f st) = sockets st"
  by (simp add: upd_stats_def)

lemma sockets_put_room [simp]: "sockets (put_room k r st) = sockets st"
  by (simp add: put_room_def)

lemma rooms_cleanupRoom:
  "rooms (fst (cleanupRoom k reason st)) = AList.delete k (rooms st)"
  by (auto simp: cleanupRoom_def split: option.splits simp: map_of_eq_None_iff)


lemma fst_andThen: "fst (andThen r f) = fst (f (fst r))"
  by (simp add: andThen_def split: prod.splits)

lemma snd_andThen: "snd (andThen r f) = snd r @ snd (f (fst r))"
  by (simp add: andThen_def split: prod.splits)

lemma rooms_force_disconnect [simp]: "rooms (fst (force_disconnect x st)) = rooms st"
  by (simp add: force_disconnect_def)

lemma rooms_replace_tv [simp]: "rooms (fst (replace_tv now s k st)) = rooms st"
  by (simp add: replace_tv_def fst_andThen split: option.splits)

lemma rooms_replace_mobile [simp]: "rooms (fst (replace_mobile now s k r st)) = rooms st"
  by (simp add: replace_mobile_def fst_andThen split: option.splits)

lemma rooms_from_controller [simp]: "fst (from_controller s st msg code body) = st"
  by (simp add: from_controller_def split: option.splits)


















lemma fst_relay [simp]:
  "fst (slide_change now s data st) = st"
  "fst (pdf_scroll now s data st) = st"
  "fst (pdf_page_change now s data st) = st"
  "fst (presentation_action now s data st) = st"
  "fst (load_document now s data st) = st"
  "fst (custom_event now s data st) = st"
  "fst (connection_test now s data st) = st"
  "fst (socket_error now s st) = st"
  by (simp_all add: slide_change_def pdf_scroll_def pdf_page_change_def
        presentation_action_def load_document_def custom_event_def connection_test_def
        socket_error_def split: option.splits)

lemma rooms_health [simp]:
  "rooms (fst (ping now s st)) = rooms st"
  "rooms (fst (pong now s st)) = rooms st"
  "rooms (fst (connection now s st)) = rooms st"
  by (simp_all add: ping_def pong_def connection_def)





section \<open>Eviction: the notice comes before the disconnect\<close>

lemma notice_first_no_disconnect:
  "(\<And>x. Disconnect x \<notin> set acts) \<Longrightarrow> notice_first told acts"
  by (induction told acts rule: notice_first.induct) auto

lemma notice_first_append:
  "notice_first told xs \<Longrightarrow> (\<And>x. Disconnect x \<notin> set ys) \<Longrightarrow> notice_first told (xs @ ys)"
  by (induction told xs rule: notice_first.induct) (auto simp: notice_first_no_disconnect)

lemma notice_first_replace_tv: "notice_first [] (snd (replace_tv now s k st))"
  by (simp add: replace_tv_def snd_andThen force_disconnect_def split: option.splits)

lemma notice_first_replace_mobile: "notice_first [] (snd (replace_mobile now s k r st))"
  by (simp add: replace_mobile_def snd_andThen force_disconnect_def split: option.splits)

lemma install_tv_no_disconnect: "Disconnect x \<notin> set (snd (install_tv now s data k st))"
  by (simp add: install_tv_def Let_def emit_error_def split: option.splits)

lemma install_mobile_no_disconnect:
  "Disconnect x \<notin> set (snd (install_mobile now s data k r t st))"
  by (simp add: install_mobile_def Let_def)

text \<open>
  Claim C6. In both eviction paths, the display's in \<open>register_tv\<close> and the controller's in
  \<open>register_mobile\<close>, the handler calls \<open>disconnect(true)\<close> on a socket only after it has
  emitted the \<open>replaced\<close> notice to that socket.
\<close>

theorem eviction_notice_precedes_disconnect:
  "notice_first [] (snd (register_tv rnd now s data st))
   \<and> notice_first [] (snd (register_mobile now s data st))"
proof
  show "notice_first [] (snd (register_tv rnd now s data st))"
  proof (cases "tv_room_id rnd data")
    case (Inl e)
    then show ?thesis by (simp add: register_tv_def emit_error_def)
  next
    case (Inr k)
    then show ?thesis
      by (simp add: register_tv_def snd_andThen notice_first_append
            notice_first_replace_tv install_tv_no_disconnect)
  qed
next
  have join: "notice_first [] (snd (andThen (replace_mobile now s k r st)
                 (install_mobile now s data k r t)))" for k r t
    by (simp add: snd_andThen notice_first_append notice_first_replace_mobile
          install_mobile_no_disconnect)
  show "notice_first [] (snd (register_mobile now s data st))"
    by (simp add: register_mobile_def emit_error_def join split: sum.splits option.splits)
qed

section \<open>Presentation actions\<close>

lemma paired_connected_tv: "connected_tv paired ''1234'' = Some ''tv1''"
  by (simp add: connected_tv_def paired_rooms paired_tv1)

text \<open>
  Counterexample to claim C1 as worded. The paired controller sends the action \<open>dance\<close>,
  which is in neither action list; the room-based handler forwards it to the display and
  sends no error.
\<close>

theorem presentation_action_unlisted_counterexample:
  "''dance'' \<notin> set spec_actions \<and> ''dance'' \<notin> set validActions
   \<and> presentation_action t0 ''m1'' (JObj [(''action'', JStr ''dance'')]) paired =
       (paired,
        [Emit ''tv1'' ''presentation_action''
           (JObj [(''action'', JStr ''dance''), (''params'', JObj []),
                  (''roomId'', JStr ''1234''), (''timestamp'', JStr (iso t0)),
                  (''from'', JStr ''m1'')])])"
  by (simp add: spec_actions_def validActions_def presentation_action_def from_controller_def
        no_roomId_def paired_m1 paired_connected_tv caught_def field_def opt_prop_def js_or_def)

text \<open>
  Claim C1, amended. In the room-based server a \<open>presentation_action\<close> message from a
  registered controller whose room has a connected display is forwarded whenever its
  \<open>action\<close> is truthy, whatever its value; only a missing or falsy action is rejected,
  with the code \<open>MISSING_ACTION\<close>, and then nothing is forwarded.
\<close>

theorem presentation_action_forwards_any_action:
  assumes "deviceType (sockets st s) = Some Mobile" and "roomId (sockets st s) = Some k"
    and "k \<noteq> []" and "connected_tv st k = Some t" and "get_prop data ''action'' = Inr a"
  shows "presentation_action now s data st =
     (st, if truthy a
          then [Emit t ''presentation_action''
                  (JObj [(''action'', a),
                         (''params'', js_or (opt_prop data ''params'') (JObj [])),
                         (''roomId'', JStr k), (''timestamp'', JStr (iso now)),
                         (''from'', JStr s)])]
          else [emit_error s ''Action is required'' ''MISSING_ACTION'' []])"
  using assms
  by (simp add: presentation_action_def from_controller_def no_roomId_def caught_def)

theorem presentation_action_forwards_any_action_witness:
  "deviceType (sockets paired ''m1'') = Some Mobile \<and> roomId (sockets paired ''m1'') = Some ''1234''
   \<and> connected_tv paired ''1234'' = Some ''tv1''
   \<and> get_prop (JObj [(''action'', JStr ''rewind'')]) ''action'' = Inr (JStr ''rewind'')
   \<and> snd (presentation_action t0 ''m1'' (JObj [(''action'', JStr ''rewind'')]) paired) =
       [Emit ''tv1'' ''presentation_action''
          (JObj [(''action'', JStr ''rewind''), (''params'', JObj []),
                 (''roomId'', JStr ''1234''), (''timestamp'', JStr (iso t0)),
                 (''from'', JStr ''m1'')])]"
proof -
  have h1: "deviceType (sockets paired ''m1'') = Some Mobile"
    and h2: "roomId (sockets paired ''m1'') = Some ''1234''"
    by (simp_all add: paired_m1)
  have h3: "''1234'' \<noteq> []" by simp
  have h5: "get_prop (JObj [(''action'', JStr ''rewind'')]) ''action'' = Inr (JStr ''rewind'')"
    by (simp add: field_def)
  from presentation_action_forwards_any_action [OF h1 h2 h3 paired_connected_tv h5, of t0]
  show ?thesis
    using h1 h2 paired_connected_tv h5 by (simp add: opt_prop_def field_def js_or_def)
qed

text \<open>
  The fixed list is enforced by the single-pair server only: there an action outside
  \<open>validActions\<close> is answered with \<open>INVALID_ACTION\<close> and not forwarded.
\<close>

lemma legacy_presentation_action_checks_list:
  "legacy_presentation_action now s (Some Mobile) (Some t) (JObj fs) =
     (if js_includes validActions (field fs ''action'')
      then [Emit t ''presentation_action''
              (with_fields fs [(''timestamp'', JStr (iso now)), (''from'', JStr s)])]
      else [emit_error s ''Invalid presentation action'' ''INVALID_ACTION'' []])"
  by (simp add: legacy_presentation_action_def spread_def)

lemma legacy_presentation_action_rejects_dance:
  "legacy_presentation_action t0 ''m1'' (Some Mobile) (Some ''tv1'')
     (JObj [(''action'', JStr ''dance'')]) =
   [emit_error ''m1'' ''Invalid presentation action'' ''INVALID_ACTION'' []]"
  by (simp add: legacy_presentation_action_def js_includes_def validActions_def field_def)

section \<open>Rejected controller registrations\<close>






lemmas leave_defs = disconnect_def no_roomId_def clear_slot_def cleanup_if_empty_def
  cleanupRoom_def




section \<open>Numeric room codes\<close>

lemma dec_nat_nonempty: "dec_nat n \<noteq> []"
  by (subst dec_nat.simps) simp

lemma dec_int_nonempty: "dec_int n \<noteq> []"
  by (simp add: dec_int_def dec_nat_nonempty)

lemma js_toString_nonempty:
  "truthy v \<Longrightarrow> js_toString path v = Inr k \<Longrightarrow> k \<noteq> []"
  by (cases v) (auto simp: dec_int_nonempty split: if_splits)

text \<open>
  Claim C10. \<open>register_tv\<close> and \<open>register_mobile\<close> turn a truthy \<open>roomId\<close> that is not a
  string into its string form before they look at the room table: a payload whose
  \<open>roomId\<close> is the value \<open>v\<close> with string form \<open>k\<close> behaves exactly as the payload whose
  \<open>roomId\<close> is the string \<open>k\<close>. The witness is the controller that sends the number \<open>1234\<close>
  and joins the room created under \<open>"1234"\<close>.
\<close>

theorem roomId_is_coerced:
  assumes "truthy v" and "js_toString ''data.roomId'' v = Inr k"
  shows "register_tv rnd now s (JObj ((''roomId'', v) # fs)) st
           = register_tv rnd now s (JObj ((''roomId'', JStr k) # fs)) st
       \<and> register_mobile now s (JObj ((''roomId'', v) # fs)) st
           = register_mobile now s (JObj ((''roomId'', JStr k) # fs)) st"
proof -
  have k: "k \<noteq> []"
    using assms by (rule js_toString_nonempty)
  have tv_id: "tv_room_id rnd (JObj ((''roomId'', v) # fs))
            = tv_room_id rnd (JObj ((''roomId'', JStr k) # fs))"
    using assms k by (simp add: tv_room_id_def opt_prop_def field_def)
  have mobile_id: "mobile_room_id (JObj ((''roomId'', v) # fs))
            = mobile_room_id (JObj ((''roomId'', JStr k) # fs))"
    using assms k by (simp add: mobile_room_id_def opt_prop_def field_def)
  have name: "opt_prop (JObj ((''roomId'', v) # fs)) ''deviceName''
            = opt_prop (JObj ((''roomId'', JStr k) # fs)) ''deviceName''"
    by (simp add: opt_prop_def field_def)
  have tv_in: "install_tv now s (JObj ((''roomId'', v) # fs))
            = install_tv now s (JObj ((''roomId'', JStr k) # fs))"
    unfolding install_tv_def name by (rule refl)
  have mobile_in: "install_mobile now s (JObj ((''roomId'', v) # fs))
            = install_mobile now s (JObj ((''roomId'', JStr k) # fs))"
    unfolding install_mobile_def name by (rule refl)
  show ?thesis
    unfolding register_tv_def register_mobile_def tv_id mobile_id tv_in mobile_in
    by (intro conjI refl)
qed

theorem roomId_is_coerced_witness:
  "truthy (JNum 1234) \<and> js_toString ''data.roomId'' (JNum 1234) = Inr ''1234''
   \<and> register_mobile t0 ''m1'' (JObj [(''roomId'', JNum 1234)]) waiting
       = register_mobile t0 ''m1'' (JObj [(''roomId'', JStr ''1234'')]) waiting
   \<and> rooms (fst (register_mobile t0 ''m1'' (JObj [(''roomId'', JNum 1234)]) waiting))
       = [(''1234'', \<lparr>tv = Some ''tv1'', mobile = Some ''m1'', createdAt = 1000\<rparr>)]"
proof -
  have a: "truthy (JNum 1234)" by simp
  have b: "js_toString ''data.roomId'' (JNum 1234) = Inr ''1234''"
    by (simp add: dec_int_1234)
  have "rooms (fst (register_mobile t0 ''m1'' (JObj [(''roomId'', JStr ''1234'')]) waiting))
       = [(''1234'', \<lparr>tv = Some ''tv1'', mobile = Some ''m1'', createdAt = 1000\<rparr>)]"
    by (simp add: join_defs waiting_rooms waiting_tv1)
  with roomId_is_coerced
         [OF a b, where rnd = zero_draws and now = t0 and s = "''m1''" and fs = "[]"
            and st = waiting]
  show ?thesis
    using b by simp
qed

section \<open>Disconnecting twice\<close>

text \<open>
  Counterexample to claim C9 as worded. With two sockets connected, the controller's
  \<open>disconnect\<close> event handled once leaves \<open>currentConnections\<close> at 1; handled twice, at 0.
\<close>

theorem disconnect_twice_counterexample:
  "currentConnections (stats paired) = 2
   \<and> currentConnections (stats (fst (disconnect t0 ''m1'' ''transport close'' paired))) = 1
   \<and> currentConnections (stats (fst (disconnect t0 ''m1'' ''transport close''
         (fst (disconnect t0 ''m1'' ''transport close'' paired))))) = 0"
  by (simp add: leave_defs paired_stats paired_rooms paired_m1 paired_tv1 upd_stats_def
        upd_socket_def put_room_def andThen_def live_def)

lemma sockets_cleanupRoom [simp]: "sockets (fst (cleanupRoom k reason st)) = sockets st"
  by (simp add: cleanupRoom_def upd_stats_def split: option.splits)

lemma sockets_cleanup_if_empty [simp]: "sockets (fst (cleanup_if_empty k st)) = sockets st"
  by (simp add: cleanup_if_empty_def split: option.splits)

lemma sockets_clear_slot [simp]: "sockets (fst (clear_slot now s reason k r st)) = sockets st"
  by (simp add: clear_slot_def)

lemma live_same_sockets: "sockets st' = sockets st \<Longrightarrow> live st' slot = live st slot"
  by (cases slot) (simp_all add: live_def)

lemma settled_cleanup_if_empty:
  assumes "map_of (rooms st) k = Some r"
    and "\<not> (deviceType (sockets st s) = Some TV \<and> tv r = Some s)"
    and "\<not> (deviceType (sockets st s) = Some Mobile \<and> mobile r = Some s)"
  shows "settled s k (fst (cleanup_if_empty k st))"
proof (cases "\<not> live st (tv r) \<and> \<not> live st (mobile r)")
  case True
  with assms(1) have "map_of (rooms (fst (cleanup_if_empty k st))) k = None"
    by (simp add: cleanup_if_empty_def rooms_cleanupRoom delete_conv')
  then show ?thesis by (simp add: settled_def)
next
  case False
  with assms show ?thesis
    by (auto simp: cleanup_if_empty_def settled_def)
qed

lemma settled_after_clear:
  assumes "map_of (rooms st) k = Some r"
  shows "settled s k (fst (andThen (clear_slot now s reason k r st) (cleanup_if_empty k)))"
proof -
  let ?c = "fst (clear_slot now s reason k r st)"
  have "\<exists>r1. map_of (rooms ?c) k = Some r1
          \<and> \<not> (deviceType (sockets ?c s) = Some TV \<and> tv r1 = Some s)
          \<and> \<not> (deviceType (sockets ?c s) = Some Mobile \<and> mobile r1 = Some s)"
    using assms by (auto simp: clear_slot_def update_conv')
  then obtain r1 where "map_of (rooms ?c) k = Some r1"
    and "\<not> (deviceType (sockets ?c s) = Some TV \<and> tv r1 = Some s)"
    and "\<not> (deviceType (sockets ?c s) = Some Mobile \<and> mobile r1 = Some s)"
    by blast
  then have "settled s k (fst (cleanup_if_empty k ?c))"
    by (rule settled_cleanup_if_empty)
  then show ?thesis by (simp add: fst_andThen)
qed

lemma disconnect_settled:
  assumes "roomId (sockets st s) = Some k" and "k \<noteq> []"
  shows "settled s k (fst (disconnect now s reason st))"
proof -
  define st1 where
    "st1 = upd_stats (\<lambda>c. c\<lparr>currentConnections := max 0 (currentConnections c - 1)\<rparr>)
             (upd_socket s (\<lambda>x. x\<lparr>connected := False\<rparr>) st)"
  have k: "roomId (sockets st1 s) = Some k"
    using assms(1) by (simp add: st1_def upd_socket_def)
  have run: "disconnect now s reason st =
      (case map_of (rooms st1) k of
         None \<Rightarrow> (st1, [])
       | Some r \<Rightarrow> andThen (clear_slot now s reason k r st1) (cleanup_if_empty k))"
    using k assms(2) unfolding disconnect_def Let_def st1_def [symmetric]
    by (simp add: no_roomId_def)
  show ?thesis
  proof (cases "map_of (rooms st1) k")
    case None
    then show ?thesis by (simp add: run settled_def)
  next
    case (Some r)
    then show ?thesis by (simp add: run settled_after_clear)
  qed
qed

lemma disconnect_socket:
  "sockets (fst (disconnect now s reason st)) = (sockets st)(s := (sockets st s)\<lparr>connected := False\<rparr>)"
  by (simp add: disconnect_def Let_def fst_andThen upd_socket_def split: option.splits)

text \<open>
  Claim C9, amended. Handling the \<open>disconnect\<close> event of a socket a second time asks
  nothing of the transport (no notification, no error) and changes neither the room table
  nor the sockets nor the counters, except \<open>currentConnections\<close>, which is lowered once
  more (not below zero).
\<close>

theorem disconnect_twice:
  "disconnect now2 s reason2 (fst (disconnect now s reason st)) =
     (upd_stats (\<lambda>c. c\<lparr>currentConnections := max 0 (currentConnections c - 1)\<rparr>)
        (fst (disconnect now s reason st)), [])"
proof -
  define d where "d = fst (disconnect now s reason st)"
  have sock: "sockets d = (sockets st)(s := (sockets st s)\<lparr>connected := False\<rparr>)"
    by (simp add: d_def disconnect_socket)
  then have again: "upd_socket s (\<lambda>x. x\<lparr>connected := False\<rparr>) d = d"
    by (simp add: upd_socket_def)
  define d1 where
    "d1 = upd_stats (\<lambda>c. c\<lparr>currentConnections := max 0 (currentConnections c - 1)\<rparr>) d"
  have start: "disconnect now2 s reason2 d =
      (if no_roomId (sockets d1 s) then (d1, [])
       else (case roomId (sockets d1 s) of
               None \<Rightarrow> (d1, [])
             | Some k \<Rightarrow>
                 (case map_of (rooms d1) k of
                    None \<Rightarrow> (d1, [])
                  | Some r \<Rightarrow> andThen (clear_slot now2 s reason2 k r d1) (cleanup_if_empty k))))"
    unfolding disconnect_def Let_def again d1_def by (rule refl)
  have rest: "andThen (clear_slot now2 s reason2 k r d1) (cleanup_if_empty k) = (d1, [])"
    if k: "roomId (sockets d1 s) = Some k" and ne: "k \<noteq> []"
      and r: "map_of (rooms d1) k = Some r" for k r
  proof -
    have same: "sockets d1 = sockets d" and "rooms d1 = rooms d"
      by (simp_all add: d1_def)
    from k have "roomId (sockets st s) = Some k"
      by (simp add: d1_def sock)
    then have "settled s k d"
      unfolding d_def using ne by (rule disconnect_settled)
    with r \<open>rooms d1 = rooms d\<close>
    have no_tv: "\<not> (deviceType (sockets d1 s) = Some TV \<and> tv r = Some s)"
      and no_mobile: "\<not> (deviceType (sockets d1 s) = Some Mobile \<and> mobile r = Some s)"
      and alive: "live d1 (tv r) \<or> live d1 (mobile r)"
      by (simp_all add: settled_def same live_same_sockets [OF same])
    from no_tv no_mobile have "clear_slot now2 s reason2 k r d1 = (d1, [])"
      by (auto simp: clear_slot_def)
    moreover from r alive have "cleanup_if_empty k d1 = (d1, [])"
      by (auto simp: cleanup_if_empty_def)
    ultimately show ?thesis by (simp add: andThen_def)
  qed
  show ?thesis
    unfolding d_def [symmetric] d1_def [symmetric] start
    by (simp add: rest no_roomId_def split: option.splits)
qed

section \<open>Generated codes and the room table\<close>

lemma draws_ok_zero: "draws_ok zero_draws"
  by (simp add: draws_ok_def length_chars zero_draws_def)

lemma generateRoomId_zero: "generateRoomId zero_draws = ''AAAAAA''"
  by (simp add: generateRoomId_concat charAt_def chars_def upt_conv_Cons zero_draws_def)

lemma tv_room_id_no_code: "tv_room_id zero_draws (JObj []) = Inr ''AAAAAA''"
  by (simp add: tv_room_id_def opt_prop_def field_def generateRoomId_zero validateRoomId_def)

lemmas first_defs = run_def t0_def initial_def new_socket_def connection_def register_tv_def
  tv_room_id_no_code replace_tv_def create_room_def install_tv_def andThen_def put_room_def
  upd_socket_def upd_stats_def rooms_size_def live_def js_or_def opt_prop_def field_def
  force_disconnect_def

lemma generated_room_rooms:
  "rooms generated_room = [(''AAAAAA'', \<lparr>tv = Some ''tv1'', mobile = None, createdAt = 1000\<rparr>)]"
  by (simp add: generated_room_def first_defs)

lemma generated_room_tv1: "connected (sockets generated_room ''tv1'')"
  by (simp add: generated_room_def first_defs)

text \<open>
  Counterexample to claim C3 as worded. A display registered without a code and got
  \<open>AAAAAA\<close>. A second display registers without a code and the draws repeat: the code
  generated for it is \<open>AAAAAA\<close> again, the code of a room in the table, and the first
  display is replaced.
\<close>

theorem generated_code_collides_counterexample:
  "draws_ok zero_draws
   \<and> tv_room_id zero_draws (JObj []) = Inr ''AAAAAA''
   \<and> map fst (rooms generated_room) = [''AAAAAA'']
   \<and> filter is_eviction (snd (register_tv zero_draws t0 ''tv2'' (JObj []) generated_room)) =
       [Emit ''tv1'' ''replaced''
          (JObj [(''message'', JStr ''New TV connected to this room''),
                 (''timestamp'', JStr (iso t0))]),
        Disconnect ''tv1'']"
  by (simp add: draws_ok_zero tv_room_id_no_code generated_room_rooms generated_room_tv1
        register_tv_def replace_tv_def live_def andThen_def force_disconnect_def
        create_room_def install_tv_def upd_stats_def upd_socket_def put_room_def)

lemma validate_generated:
  assumes "draws_ok rnd"
  shows "validateRoomId (JStr (generateRoomId rnd))"
proof -
  from assms have "\<forall>i < 6. rnd i < length chars"
    by (simp add: draws_ok_def)
  then have "length (generateRoomId rnd) = 6"
    by (rule generateRoomId_length)
  then show ?thesis
    by (auto simp: validateRoomId_def)
qed

lemma map_of_install_tv:
  "map_option tv (map_of (rooms (fst (install_tv now s data k (create_room now k st)))) k)
     = Some (Some s)"
  by (cases "map_of (rooms st) k")
     (simp_all add: install_tv_def create_room_def Let_def update_conv')

lemma roomId_install_tv:
  "roomId (sockets (fst (install_tv now s data k (create_room now k st))) s) = Some k"
  by (cases "map_of (rooms st) k")
     (simp_all add: install_tv_def create_room_def Let_def upd_socket_def update_conv')

text \<open>
  Claim C3, amended. When the caller's code is absent (falsy) or its string form fails the
  format check, \<open>register_tv\<close> uses the code \<open>generateRoomId\<close> builds from the random
  draws alone, whatever the room table holds, and installs the caller as the display of the
  room with that code.
\<close>

theorem generated_code_ignores_room_table:
  assumes "draws_ok rnd"
    and "\<not> truthy (opt_prop data ''roomId'')
         \<or> (\<exists>k. js_toString ''data.roomId'' (opt_prop data ''roomId'') = Inr k
                \<and> \<not> validateRoomId (JStr k))"
  shows "tv_room_id rnd data = Inr (generateRoomId rnd)
       \<and> map_option tv (map_of (rooms (fst (register_tv rnd now s data st))) (generateRoomId rnd))
           = Some (Some s)
       \<and> roomId (sockets (fst (register_tv rnd now s data st)) s) = Some (generateRoomId rnd)"
proof -
  have id: "tv_room_id rnd data = Inr (generateRoomId rnd)"
    using assms(2) validate_generated [OF assms(1)]
    by (auto simp: tv_room_id_def Let_def)
  then show ?thesis
    by (simp add: register_tv_def fst_andThen map_of_install_tv roomId_install_tv)
qed

theorem generated_code_ignores_room_table_witness:
  "draws_ok zero_draws \<and> \<not> truthy (opt_prop (JObj []) ''roomId'')
   \<and> tv_room_id zero_draws (JObj []) = Inr ''AAAAAA''
   \<and> map_option tv (map_of (rooms (fst (register_tv zero_draws t0 ''tv2'' (JObj [])
         generated_room))) ''AAAAAA'') = Some (Some ''tv2'')
   \<and> map_of (rooms generated_room) ''AAAAAA''
       = Some \<lparr>tv = Some ''tv1'', mobile = None, createdAt = 1000\<rparr>"
proof -
  have absent: "\<not> truthy (opt_prop (JObj []) ''roomId'')"
    by (simp add: opt_prop_def field_def)
  then have "\<not> truthy (opt_prop (JObj []) ''roomId'')
      \<or> (\<exists>k. js_toString ''data.roomId'' (opt_prop (JObj []) ''roomId'') = Inr k
             \<and> \<not> validateRoomId (JStr k))"
    by (rule disjI1)
  from generated_code_ignores_room_table [OF draws_ok_zero this, of t0 "''tv2''" generated_room]
  show ?thesis
    using absent by (simp add: draws_ok_zero generateRoomId_zero generated_room_rooms)
qed

section \<open>What the display receives\<close>

text \<open>
  Counterexample to claim C4 as worded. The paired controller sends a scroll message with
  \<open>pageNumber\<close> 0; the display receives \<open>pageNumber\<close> 1.
\<close>

theorem pdf_scroll_page_zero_counterexample:
  "opt_prop (JObj [(''scrollOffset'', JNum 10), (''pageNumber'', JNum 0)]) ''pageNumber'' = JNum 0
   \<and> pdf_scroll t0 ''m1'' (JObj [(''scrollOffset'', JNum 10), (''pageNumber'', JNum 0)]) paired =
       (paired,
        [Emit ''tv1'' ''pdf_scroll''
           (JObj [(''scrollOffset'', JNum 10), (''pageNumber'', JNum 1),
                  (''roomId'', JStr ''1234''), (''timestamp'', JStr (iso t0)),
                  (''from'', JStr ''m1'')])])"
  by (simp add: pdf_scroll_def from_controller_def no_roomId_def paired_m1 paired_connected_tv
        caught_def field_def opt_prop_def js_or_def)

lemma from_controller_emits:
  assumes "Emit x ev p \<in> set (snd (from_controller s st msg code body))"
    and "ev \<noteq> ''error''"
  obtains k t where "roomId (sockets st s) = Some k" and "connected_tv st k = Some t"
    and "Emit x ev p \<in> set (body k t)"
  using assms
  by (auto simp: from_controller_def emit_error_def split: option.splits if_splits)

lemma display_of_eq:
  "roomId (sockets st s) = Some k \<Longrightarrow> connected_tv st k = Some t \<Longrightarrow> display_of st s = Some t"
  by (simp add: display_of_def)

lemma opt_prop_Inr: "get_prop data f = Inr v \<Longrightarrow> opt_prop data f = v"
  by (simp add: opt_prop_def)

lemma relayed_slide_change:
  assumes "Emit x ''slide_change'' (JObj p) \<in> set (snd (slide_change now s data st))"
  shows "display_of st s = Some x
       \<and> map fst p = [''slideIndex'', ''roomId'', ''timestamp'', ''from'']
       \<and> field p ''slideIndex'' = opt_prop data ''slideIndex''
       \<and> field p ''timestamp'' = JStr (iso now) \<and> field p ''from'' = JStr s"
proof -
  from assms [unfolded slide_change_def]
  obtain k t where k: "roomId (sockets st s) = Some k" and t: "connected_tv st k = Some t"
    and body: "Emit x ''slide_change'' (JObj p)
      \<in> set (caught s ''Failed to change slide'' ''SLIDE_CHANGE_ERROR''
          (case get_prop data ''slideIndex'' of
             Inl e \<Rightarrow> Inl e
           | Inr (JNum n) \<Rightarrow>
               if n < 0 then Inr [emit_error s ''Invalid slide index'' ''INVALID_SLIDE_INDEX'' []]
               else Inr
                 [Emit t ''slide_change''
                    (JObj [(''slideIndex'', JNum n), (''roomId'', JStr k),
                           (''timestamp'', JStr (iso now)), (''from'', JStr s)]),
                  Emit s ''slide_change_ack''
                    (JObj [(''slideIndex'', JNum n), (''timestamp'', JStr (iso now))])]
           | Inr v \<Rightarrow> Inr [emit_error s ''Invalid slide index'' ''INVALID_SLIDE_INDEX'' []]))"
    by (rule from_controller_emits) simp
  from body obtain n where "get_prop data ''slideIndex'' = Inr (JNum n)" and "x = t"
    and "p = [(''slideIndex'', JNum n), (''roomId'', JStr k),
              (''timestamp'', JStr (iso now)), (''from'', JStr s)]"
    by (auto simp: caught_def emit_error_def split: sum.splits jsval.splits if_splits)
  with k t show ?thesis
    by (simp add: display_of_eq opt_prop_Inr field_def)
qed

lemma relayed_pdf_scroll:
  assumes "Emit x ''pdf_scroll'' (JObj p) \<in> set (snd (pdf_scroll now s data st))"
  shows "display_of st s = Some x
       \<and> map fst p = [''scrollOffset'', ''pageNumber'', ''roomId'', ''timestamp'', ''from'']
       \<and> field p ''scrollOffset'' = opt_prop data ''scrollOffset''
       \<and> field p ''pageNumber'' = js_or (opt_prop data ''pageNumber'') (JNum 1)
       \<and> field p ''timestamp'' = JStr (iso now) \<and> field p ''from'' = JStr s"
proof -
  from assms [unfolded pdf_scroll_def]
  obtain k t where k: "roomId (sockets st s) = Some k" and t: "connected_tv st k = Some t"
    and body: "Emit x ''pdf_scroll'' (JObj p)
      \<in> set (caught s ''Failed to scroll PDF'' ''PDF_SCROLL_ERROR''
          (case get_prop data ''scrollOffset'' of
             Inl e \<Rightarrow> Inl e
           | Inr (JNum n) \<Rightarrow> Inr
               [Emit t ''pdf_scroll''
                  (JObj [(''scrollOffset'', JNum n),
                         (''pageNumber'', js_or (opt_prop data ''pageNumber'') (JNum 1)),
                         (''roomId'', JStr k), (''timestamp'', JStr (iso now)),
                         (''from'', JStr s)])]
           | Inr v \<Rightarrow> Inr [emit_error s ''Invalid scroll offset'' ''INVALID_SCROLL_OFFSET'' []]))"
    by (rule from_controller_emits) simp
  from body obtain n where "get_prop data ''scrollOffset'' = Inr (JNum n)" and "x = t"
    and "p = [(''scrollOffset'', JNum n),
              (''pageNumber'', js_or (opt_prop data ''pageNumber'') (JNum 1)),
              (''roomId'', JStr k), (''timestamp'', JStr (iso now)), (''from'', JStr s)]"
    by (auto simp: caught_def emit_error_def split: sum.splits jsval.splits if_splits)
  with k t show ?thesis
    by (simp add: display_of_eq opt_prop_Inr field_def)
qed

lemma relayed_pdf_page_change:
  assumes "Emit x ''pdf_page_change'' (JObj p) \<in> set (snd (pdf_page_change now s data st))"
  shows "display_of st s = Some x
       \<and> map fst p = [''pageNumber'', ''roomId'', ''timestamp'', ''from'']
       \<and> field p ''pageNumber'' = opt_prop data ''pageNumber''
       \<and> field p ''timestamp'' = JStr (iso now) \<and> field p ''from'' = JStr s"
proof -
  from assms [unfolded pdf_page_change_def]
  obtain k t where k: "roomId (sockets st s) = Some k" and t: "connected_tv st k = Some t"
    and body: "Emit x ''pdf_page_change'' (JObj p)
      \<in> set (caught s ''Failed to change PDF page'' ''PDF_PAGE_CHANGE_ERROR''
          (case get_prop data ''pageNumber'' of
             Inl e \<Rightarrow> Inl e
           | Inr (JNum n) \<Rightarrow>
               if n < 1 then Inr [emit_error s ''Invalid page number'' ''INVALID_PAGE_NUMBER'' []]
               else Inr
                 [Emit t ''pdf_page_change''
                    (JObj [(''pageNumber'', JNum n), (''roomId'', JStr k),
                           (''timestamp'', JStr (iso now)), (''from'', JStr s)])]
           | Inr v \<Rightarrow> Inr [emit_error s ''Invalid page number'' ''INVALID_PAGE_NUMBER'' []]))"
    by (rule from_controller_emits) simp
  from body obtain n where "get_prop data ''pageNumber'' = Inr (JNum n)" and "x = t"
    and "p = [(''pageNumber'', JNum n), (''roomId'', JStr k),
              (''timestamp'', JStr (iso now)), (''from'', JStr s)]"
    by (auto simp: caught_def emit_error_def split: sum.splits jsval.splits if_splits)
  with k t show ?thesis
    by (simp add: display_of_eq opt_prop_Inr field_def)
qed

lemma relayed_presentation_action:
  assumes "Emit x ''presentation_action'' (JObj p)
             \<in> set (snd (presentation_action now s data st))"
  shows "display_of st s = Some x
       \<and> map fst p = [''action'', ''params'', ''roomId'', ''timestamp'', ''from'']
       \<and> field p ''action'' = opt_prop data ''action''
       \<and> field p ''params'' = js_or (opt_prop data ''params'') (JObj [])
       \<and> field p ''timestamp'' = JStr (iso now) \<and> field p ''from'' = JStr s"
proof -
  from assms [unfolded presentation_action_def]
  obtain k t where k: "roomId (sockets st s) = Some k" and t: "connected_tv st k = Some t"
    and body: "Emit x ''presentation_action'' (JObj p)
      \<in> set (caught s ''Failed to execute presentation action'' ''PRESENTATION_ACTION_ERROR''
          (case get_prop data ''action'' of
             Inl e \<Rightarrow> Inl e
           | Inr a \<Rightarrow>
               if \<not> truthy a then Inr [emit_error s ''Action is required'' ''MISSING_ACTION'' []]
               else Inr
                 [Emit t ''presentation_action''
                    (JObj [(''action'', a),
                           (''params'', js_or (opt_prop data ''params'') (JObj [])),
                           (''roomId'', JStr k), (''timestamp'', JStr (iso now)),
                           (''from'', JStr s)])]))"
    by (rule from_controller_emits) simp
  from body obtain a where "get_prop data ''action'' = Inr a" and "x = t"
    and "p = [(''action'', a), (''params'', js_or (opt_prop data ''params'') (JObj [])),
              (''roomId'', JStr k), (''timestamp'', JStr (iso now)), (''from'', JStr s)]"
    by (auto simp: caught_def emit_error_def split: sum.splits if_splits)
  with k t show ?thesis
    by (simp add: display_of_eq opt_prop_Inr field_def)
qed

lemma relayed_load_document:
  assumes "Emit x ''load_document'' (JObj p) \<in> set (snd (load_document now s data st))"
  shows "display_of st s = Some x
       \<and> map fst p = [''documentType'', ''documentUrl'', ''metadata'', ''roomId'',
                       ''timestamp'', ''from'']
       \<and> field p ''documentType'' = opt_prop data ''documentType''
       \<and> field p ''documentUrl'' = opt_prop data ''documentUrl''
       \<and> field p ''metadata'' = js_or (opt_prop data ''metadata'') (JObj [])
       \<and> field p ''timestamp'' = JStr (iso now) \<and> field p ''from'' = JStr s"
proof -
  from assms [unfolded load_document_def]
  obtain k t where k: "roomId (sockets st s) = Some k" and t: "connected_tv st k = Some t"
    and body: "Emit x ''load_document'' (JObj p)
      \<in> set (caught s ''Failed to load document'' ''LOAD_DOCUMENT_ERROR''
          (case get_prop data ''documentType'' of
             Inl e \<Rightarrow> Inl e
           | Inr ty \<Rightarrow>
               if \<not> truthy ty \<or> \<not> truthy (opt_prop data ''documentUrl'') then
                 Inr [emit_error s ''Document type and URL are required''
                        ''MISSING_DOCUMENT_INFO'' []]
               else Inr
                 [Emit t ''load_document''
                    (JObj [(''documentType'', ty),
                           (''documentUrl'', opt_prop data ''documentUrl''),
                           (''metadata'', js_or (opt_prop data ''metadata'') (JObj [])),
                           (''roomId'', JStr k), (''timestamp'', JStr (iso now)),
                           (''from'', JStr s)])]))"
    by (rule from_controller_emits) simp
  from body obtain ty where "get_prop data ''documentType'' = Inr ty" and "x = t"
    and "p = [(''documentType'', ty), (''documentUrl'', opt_prop data ''documentUrl''),
              (''metadata'', js_or (opt_prop data ''metadata'') (JObj [])),
              (''roomId'', JStr k), (''timestamp'', JStr (iso now)), (''from'', JStr s)]"
    by (auto simp: caught_def emit_error_def split: sum.splits if_splits)
  with k t show ?thesis
    by (simp add: display_of_eq opt_prop_Inr field_def)
qed

text \<open>
  Claim C4, amended. Whatever a typed handler emits to a socket under its own event name
  goes to the connected display of the sender's room, carries the server's timestamp and
  the sender's id, and has exactly the handler's fields: \<open>slideIndex\<close>, \<open>scrollOffset\<close>,
  \<open>pageNumber\<close> of a page change, \<open>action\<close>, \<open>documentType\<close> and \<open>documentUrl\<close> with the
  sender's values, and \<open>pageNumber\<close> of a scroll, \<open>params\<close> and \<open>metadata\<close> with the sender's
  value when it is truthy and with the default \<open>1\<close>, \<open>{}\<close>, \<open>{}\<close> otherwise.
\<close>

theorem relayed_payload:
  "(Emit x1 ''slide_change'' (JObj p1) \<in> set (snd (slide_change now s data st)) \<longrightarrow>
      display_of st s = Some x1
      \<and> map fst p1 = [''slideIndex'', ''roomId'', ''timestamp'', ''from'']
      \<and> field p1 ''slideIndex'' = opt_prop data ''slideIndex''
      \<and> field p1 ''timestamp'' = JStr (iso now) \<and> field p1 ''from'' = JStr s)
   \<and> (Emit x2 ''pdf_scroll'' (JObj p2) \<in> set (snd (pdf_scroll now s data st)) \<longrightarrow>
      display_of st s = Some x2
      \<and> map fst p2 = [''scrollOffset'', ''pageNumber'', ''roomId'', ''timestamp'', ''from'']
      \<and> field p2 ''scrollOffset'' = opt_prop data ''scrollOffset''
      \<and> field p2 ''pageNumber'' = js_or (opt_prop data ''pageNumber'') (JNum 1)
      \<and> field p2 ''timestamp'' = JStr (iso now) \<and> field p2 ''from'' = JStr s)
   \<and> (Emit x3 ''pdf_page_change'' (JObj p3) \<in> set (snd (pdf_page_change now s data st)) \<longrightarrow>
      display_of st s = Some x3
      \<and> map fst p3 = [''pageNumber'', ''roomId'', ''timestamp'', ''from'']
      \<and> field p3 ''pageNumber'' = opt_prop data ''pageNumber''
      \<and> field p3 ''timestamp'' = JStr (iso now) \<and> field p3 ''from'' = JStr s)
   \<and> (Emit x4 ''presentation_action'' (JObj p4)
        \<in> set (snd (presentation_action now s data st)) \<longrightarrow>
      display_of st s = Some x4
      \<and> map fst p4 = [''action'', ''params'', ''roomId'', ''timestamp'', ''from'']
      \<and> field p4 ''action'' = opt_prop data ''action''
      \<and> field p4 ''params'' = js_or (opt_prop data ''params'') (JObj [])
      \<and> field p4 ''timestamp'' = JStr (iso now) \<and> field p4 ''from'' = JStr s)
   \<and> (Emit x5 ''load_document'' (JObj p5) \<in> set (snd (load_document now s data st)) \<longrightarrow>
      display_of st s = Some x5
      \<and> map fst p5 = [''documentType'', ''documentUrl'', ''metadata'', ''roomId'',
                       ''timestamp'', ''from'']
      \<and> field p5 ''documentType'' = opt_prop data ''documentType''
      \<and> field p5 ''documentUrl'' = opt_prop data ''documentUrl''
      \<and> field p5 ''metadata'' = js_or (opt_prop data ''metadata'') (JObj [])
      \<and> field p5 ''timestamp'' = JStr (iso now) \<and> field p5 ''from'' = JStr s)"
  using relayed_slide_change [of x1 p1 now s data st]
    relayed_pdf_scroll [of x2 p2 now s data st]
    relayed_pdf_page_change [of x3 p3 now s data st]
    relayed_presentation_action [of x4 p4 now s data st]
    relayed_load_document [of x5 p5 now s data st]
  by blast

lemmas relay_defs = from_controller_def no_roomId_def paired_m1 paired_connected_tv
  caught_def field_def opt_prop_def js_or_def all_fields_def

theorem relayed_payload_witness:
  "Emit ''tv1'' ''slide_change''
      (JObj [(''slideIndex'', JNum 3), (''roomId'', JStr ''1234''),
             (''timestamp'', JStr (iso t0)), (''from'', JStr ''m1'')])
     \<in> set (snd (slide_change t0 ''m1'' all_fields paired))
   \<and> Emit ''tv1'' ''pdf_scroll''
      (JObj [(''scrollOffset'', JNum 10), (''pageNumber'', JNum 2), (''roomId'', JStr ''1234''),
             (''timestamp'', JStr (iso t0)), (''from'', JStr ''m1'')])
     \<in> set (snd (pdf_scroll t0 ''m1'' all_fields paired))
   \<and> Emit ''tv1'' ''pdf_page_change''
      (JObj [(''pageNumber'', JNum 2), (''roomId'', JStr ''1234''),
             (''timestamp'', JStr (iso t0)), (''from'', JStr ''m1'')])
     \<in> set (snd (pdf_page_change t0 ''m1'' all_fields paired))
   \<and> Emit ''tv1'' ''presentation_action''
      (JObj [(''action'', JStr ''play''), (''params'', JObj []), (''roomId'', JStr ''1234''),
             (''timestamp'', JStr (iso t0)), (''from'', JStr ''m1'')])
     \<in> set (snd (presentation_action t0 ''m1'' all_fields paired))
   \<and> Emit ''tv1'' ''load_document''
      (JObj [(''documentType'', JStr ''pdf''),
             (''documentUrl'', JStr ''https://example.org/a.pdf''), (''metadata'', JObj []),
             (''roomId'', JStr ''1234''), (''timestamp'', JStr (iso t0)),
             (''from'', JStr ''m1'')])
     \<in> set (snd (load_document t0 ''m1'' all_fields paired))
   \<and> display_of paired ''m1'' = Some ''tv1''
   \<and> opt_prop all_fields ''slideIndex'' = JNum 3
   \<and> opt_prop all_fields ''documentUrl'' = JStr ''https://example.org/a.pdf''"
proof -
  have a: "Emit ''tv1'' ''slide_change''
      (JObj [(''slideIndex'', JNum 3), (''roomId'', JStr ''1234''),
             (''timestamp'', JStr (iso t0)), (''from'', JStr ''m1'')])
     \<in> set (snd (slide_change t0 ''m1'' all_fields paired))"
    by (simp add: slide_change_def relay_defs)
  have b: "Emit ''tv1'' ''pdf_scroll''
      (JObj [(''scrollOffset'', JNum 10), (''pageNumber'', JNum 2), (''roomId'', JStr ''1234''),
             (''timestamp'', JStr (iso t0)), (''from'', JStr ''m1'')])
     \<in> set (snd (pdf_scroll t0 ''m1'' all_fields paired))"
    by (simp add: pdf_scroll_def relay_defs)
  have c: "Emit ''tv1'' ''pdf_page_change''
      (JObj [(''pageNumber'', JNum 2), (''roomId'', JStr ''1234''),
             (''timestamp'', JStr (iso t0)), (''from'', JStr ''m1'')])
     \<in> set (snd (pdf_page_change t0 ''m1'' all_fields paired))"
    by (simp add: pdf_page_change_def relay_defs)
  have d: "Emit ''tv1'' ''presentation_action''
      (JObj [(''action'', JStr ''play''), (''params'', JObj []), (''roomId'', JStr ''1234''),
             (''timestamp'', JStr (iso t0)), (''from'', JStr ''m1'')])
     \<in> set (snd (presentation_action t0 ''m1'' all_fields paired))"
    by (simp add: presentation_action_def relay_defs)
  have e: "Emit ''tv1'' ''load_document''
      (JObj [(''documentType'', JStr ''pdf''),
             (''documentUrl'', JStr ''https://example.org/a.pdf''), (''metadata'', JObj []),
             (''roomId'', JStr ''1234''), (''timestamp'', JStr (iso t0)),
             (''from'', JStr ''m1'')])
     \<in> set (snd (load_document t0 ''m1'' all_fields paired))"
    by (simp add: load_document_def relay_defs)
  from relayed_payload
    [where ?x1.0 = "''tv1''" and ?x5.0 = "''tv1''" and now = t0 and s = "''m1''"
       and data = all_fields and st = paired
       and ?p1.0 = "[(''slideIndex'', JNum 3), (''roomId'', JStr ''1234''),
             (''timestamp'', JStr (iso t0)), (''from'', JStr ''m1'')]"
       and ?p5.0 = "[(''documentType'', JStr ''pdf''),
             (''documentUrl'', JStr ''https://example.org/a.pdf''), (''metadata'', JObj []),
             (''roomId'', JStr ''1234''), (''timestamp'', JStr (iso t0)),
             (''from'', JStr ''m1'')]"] a e
  have "display_of paired ''m1'' = Some ''tv1''
        \<and> opt_prop all_fields ''slideIndex'' = JNum 3
        \<and> opt_prop all_fields ''documentUrl'' = JStr ''https://example.org/a.pdf''"
    by (simp add: field_def)
  with a b c d e show ?thesis by simp
qed

section \<open>A display registers in a room that has one\<close>









end
